theory Spec2Isabelle
  imports Complex_Main "HOL-Library.Sublist"
begin

section \<open>Python values and errors\<close>

text \<open>
  The program is one Python function, \<^verbatim>\<open>_mp_fn\<close> of \<^verbatim>\<open>train_tpu.py\<close>, run once per
  accelerator core. Every \<^verbatim>\<open>raise\<close> of the source and every exception of the
  interpreter or of the tensor library that the source can provoke is a value of
  \<open>py_error\<close>; a computation that may raise returns \<open>py_error + 'a\<close>.
\<close>

datatype py_error =
    KeyError string
  | TypeError string
  | AttributeError string
  | ValueError string
  | ZeroDivisionError
  | RuntimeError string
  | Exception string
  | SystemExit int

text \<open>
  \<^verbatim>\<open>int(x)\<close> on a float truncates toward zero. The floats converted by the program are
  \<^verbatim>\<open>m / 2\<close> and \<^verbatim>\<open>m / 2 - 1\<close> for a tensor length \<open>m\<close>; both are exact in
  double precision for every length below \<open>2 ^ 53\<close>, so they are modelled as rationals.
\<close>

definition py_int :: "rat \<Rightarrow> int" where
  "py_int q = (if 0 \<le> q then \<lfloor>q\<rfloor> else \<lceil>q\<rceil>)"

text \<open>
  A basic slice \<^verbatim>\<open>xs[a:b]\<close> of a list, a numpy array or one axis of a tensor: a negative
  bound counts from the end, and both bounds are clamped to the length.
\<close>

definition py_bound :: "nat \<Rightarrow> int \<Rightarrow> nat" where
  "py_bound n i = (if i < 0 then nat (int n + i) else min n (nat i))"

definition py_slice :: "'a list \<Rightarrow> int \<Rightarrow> int \<Rightarrow> 'a list" where
  "py_slice xs a b = take (py_bound (length xs) b - py_bound (length xs) a)
                          (drop (py_bound (length xs) a) xs)"

section \<open>Windowed segment sampler\<close>

text \<open>
  \<^verbatim>\<open>mel_input_length.min()\<close>: the smallest entry of a one-dimensional tensor of lengths;
  it raises on an empty tensor.
\<close>

fun tensor_min :: "nat list \<Rightarrow> py_error + nat" where
  "tensor_min [] = Inl (RuntimeError ''min(): cannot reduce an empty tensor'')"
| "tensor_min (m # ms) = Inr (fold min ms m)"

text \<open>
  Training (line 256):
  \<^verbatim>\<open>mel_len = min(int(mel_input_length.min().item() / 2 - 1), max_len // 2)\<close>.
\<close>

definition mel_len_train :: "nat list \<Rightarrow> int \<Rightarrow> py_error + int" where
  "mel_len_train lens max_len =
     (case tensor_min lens of
        Inl e \<Rightarrow> Inl e
      | Inr m \<Rightarrow> Inr (min (py_int (of_nat m / 2 - 1)) (max_len div 2)))"

text \<open>
  Validation (line 418): \<^verbatim>\<open>mel_len = int(mel_input_length.min().item() / 2 - 1)\<close>.
\<close>

definition mel_len_val :: "nat list \<Rightarrow> py_error + int" where
  "mel_len_val lens =
     (case tensor_min lens of
        Inl e \<Rightarrow> Inl e
      | Inr m \<Rightarrow> Inr (py_int (of_nat m / 2 - 1)))"

text \<open>Lines 260 and 422: \<^verbatim>\<open>mel_length = int(mel_input_length[bib].item() / 2)\<close>.\<close>

definition mel_length :: "nat \<Rightarrow> int" where
  "mel_length m = py_int (of_nat m / 2)"

text \<open>
  \<^verbatim>\<open>np.random.randint(low, high)\<close> draws from the discrete uniform distribution on the
  half-open interval from \<open>low\<close> to \<open>high\<close> and raises \<^verbatim>\<open>ValueError\<close> when the interval
  is empty. The model returns the distribution: every possible outcome with its
  probability.
\<close>

definition randint :: "int \<Rightarrow> int \<Rightarrow> py_error + (int \<times> rat) list" where
  "randint low high =
     (if high \<le> low then Inl (ValueError ''low >= high'')
      else Inr (map (\<lambda>r. (r, 1 / of_int (high - low))) [low..high - 1]))"

text \<open>Lines 261 and 423: \<^verbatim>\<open>random_start = np.random.randint(0, mel_length - mel_len)\<close>.\<close>

definition random_start :: "nat \<Rightarrow> int \<Rightarrow> py_error + (int \<times> rat) list" where
  "random_start m mel_len = randint 0 (mel_length m - mel_len)"

text \<open>
  The loop over the examples of a batch (lines 259 to 266) draws one start per example,
  in order, and stops at the first draw that raises.
\<close>

fun sample_batch :: "nat list \<Rightarrow> int \<Rightarrow> py_error + (int \<times> rat) list list" where
  "sample_batch [] mel_len = Inr []"
| "sample_batch (m # ms) mel_len =
     (case random_start m mel_len of
        Inl e \<Rightarrow> Inl e
      | Inr draw \<Rightarrow>
          (case sample_batch ms mel_len of
             Inl e \<Rightarrow> Inl e
           | Inr draws \<Rightarrow> Inr (draw # draws)))"





section \<open>Alignment choice\<close>

text \<open>
  A matrix is a list of rows. \<^verbatim>\<open>t_en @ s2s_attn\<close> multiplies, for each example, the
  text-encoder output (channels by tokens) with an alignment matrix (tokens by frames).
\<close>

definition matmul :: "real list list \<Rightarrow> real list list \<Rightarrow> real list list" where
  "matmul A B = map (\<lambda>row. map (\<lambda>col. sum_list (map2 (*) row col)) (transpose B)) A"

text \<open>
  \<^verbatim>\<open>random.getrandbits(1)\<close> returns 0 or 1, each with probability one half, and
  \<^verbatim>\<open>bool\<close> of an integer is true exactly when it is not zero.
\<close>

definition getrandbits1 :: "(nat \<times> rat) list" where
  "getrandbits1 = [(0, 1 / 2), (1, 1 / 2)]"

definition py_bool :: "nat \<Rightarrow> bool" where
  "py_bool n = (n \<noteq> 0)"

text \<open>
  Lines 242 to 245:
  \<^verbatim>\<open>if bool(random.getrandbits(1)): asr = (t_en @ s2s_attn) else: asr = (t_en @ s2s_attn_mono)\<close>.
\<close>

definition train_asr :: "nat \<Rightarrow> real list list \<Rightarrow> real list list \<Rightarrow> real list list \<Rightarrow> real list list" where
  "train_asr rbit t_en s2s_attn s2s_attn_mono =
     (if py_bool rbit then matmul t_en s2s_attn else matmul t_en s2s_attn_mono)"

text \<open>The distribution of \<open>asr\<close> in a training step: one entry per outcome of the bit.\<close>

definition train_asr_dist :: "real list list \<Rightarrow> real list list \<Rightarrow> real list list \<Rightarrow> (real list list \<times> rat) list" where
  "train_asr_dist t_en s2s_attn s2s_attn_mono =
     map (\<lambda>(rbit, pr). (train_asr rbit t_en s2s_attn s2s_attn_mono, pr)) getrandbits1"

text \<open>Line 411: \<^verbatim>\<open>asr = (t_en @ s2s_attn_mono)\<close>.\<close>

definition val_asr :: "real list list \<Rightarrow> real list list \<Rightarrow> real list list" where
  "val_asr t_en s2s_attn_mono = matmul t_en s2s_attn_mono"

section \<open>Duration and alignment losses\<close>

text \<open>
  Losses are computed over the reals. A tensor library's mean of no elements is NaN;
  \<open>None\<close> stands for NaN, and NaN absorbs addition and division.
\<close>

definition mean :: "real list \<Rightarrow> real option" where
  "mean xs = (if xs = [] then None else Some (sum_list xs / of_nat (length xs)))"

definition l1_loss :: "real list \<Rightarrow> real list \<Rightarrow> real option" where
  "l1_loss input target = mean (map2 (\<lambda>x y. \<bar>x - y\<bar>) input target)"

definition sigmoid :: "real \<Rightarrow> real" where
  "sigmoid x = 1 / (1 + exp (- x))"

definition bce_term :: "real \<Rightarrow> real \<Rightarrow> real" where
  "bce_term x z = max x 0 - x * z + ln (1 + exp (- \<bar>x\<bar>))"

definition binary_cross_entropy_with_logits :: "real list \<Rightarrow> real list \<Rightarrow> real option" where
  "binary_cross_entropy_with_logits input target = mean (map2 bce_term input target)"

text \<open>
  Lines 308 to 310: a row of zeros of the width of the prediction whose first \<open>k\<close>
  entries are set to one (\<^verbatim>\<open>_s2s_trg[pidx, :_text_input[pidx]] = 1\<close>).
\<close>

definition s2s_trg_row :: "nat \<Rightarrow> nat \<Rightarrow> real list" where
  "s2s_trg_row width k = replicate (min k width) 1 @ replicate (width - k) 0"

text \<open>
  Lines 306 to 311 for one example: \<open>d_row\<close> is the predictor's duration output
  (one row of logits per token), \<open>d_gt_row\<close> the frame count of each token on the hard
  path, \<open>text_length\<close> the example's entry of \<^verbatim>\<open>input_lengths\<close>.
\<close>

definition s2s_pred_of :: "real list list \<Rightarrow> int \<Rightarrow> real list list" where
  "s2s_pred_of d_row text_length = py_slice d_row 0 text_length"

definition text_input_of :: "nat list \<Rightarrow> int \<Rightarrow> nat list" where
  "text_input_of d_gt_row text_length = py_slice d_gt_row 0 text_length"

definition s2s_trg_of :: "real list list \<Rightarrow> nat list \<Rightarrow> real list list" where
  "s2s_trg_of s2s_pred text_input = map2 (\<lambda>row k. s2s_trg_row (length row) k) s2s_pred text_input"

definition dur_pred_of :: "real list list \<Rightarrow> real list" where
  "dur_pred_of s2s_pred = map (\<lambda>row. sum_list (map sigmoid row)) s2s_pred"

text \<open>
  Line 313:
  \<^verbatim>\<open>F.l1_loss(_dur_pred[1:_text_length - 1], _text_input[1:_text_length - 1])\<close>.
\<close>

definition loss_dur_example :: "real list list \<Rightarrow> nat list \<Rightarrow> int \<Rightarrow> real option" where
  "loss_dur_example d_row d_gt_row text_length =
     l1_loss (py_slice (dur_pred_of (s2s_pred_of d_row text_length)) 1 (text_length - 1))
             (map of_nat (py_slice (text_input_of d_gt_row text_length) 1 (text_length - 1)))"

text \<open>
  Line 314:
  \<^verbatim>\<open>F.binary_cross_entropy_with_logits(_s2s_pred.flatten(), _s2s_trg.flatten())\<close>.
\<close>

definition loss_ce_example :: "real list list \<Rightarrow> nat list \<Rightarrow> int \<Rightarrow> real option" where
  "loss_ce_example d_row d_gt_row text_length =
     binary_cross_entropy_with_logits
       (concat (s2s_pred_of d_row text_length))
       (concat (s2s_trg_of (s2s_pred_of d_row text_length) (text_input_of d_gt_row text_length)))"

definition nan_add :: "real option \<Rightarrow> real option \<Rightarrow> real option" where
  "nan_add a b = (case a of None \<Rightarrow> None | Some x \<Rightarrow> (case b of None \<Rightarrow> None | Some y \<Rightarrow> Some (x + y)))"

definition nan_div :: "real option \<Rightarrow> nat \<Rightarrow> real option" where
  "nan_div a n = (case a of None \<Rightarrow> None | Some x \<Rightarrow> (if n = 0 then None else Some (x / of_nat n)))"

text \<open>
  Lines 303 to 317: the loop over \<^verbatim>\<open>zip(d, d_gt, input_lengths)\<close> adds the per-example
  losses, starting from 0; the sums are then divided by \<^verbatim>\<open>texts.size(0)\<close>.
\<close>

definition loss_dur :: "real list list list \<Rightarrow> nat list list \<Rightarrow> int list \<Rightarrow> nat \<Rightarrow> real option" where
  "loss_dur d d_gt input_lengths texts_size0 =
     nan_div (fold (\<lambda>(d_row, d_gt_row, text_length) acc.
                      nan_add acc (loss_dur_example d_row d_gt_row text_length))
                   (zip d (zip d_gt input_lengths)) (Some 0))
             texts_size0"

definition loss_ce :: "real list list list \<Rightarrow> nat list list \<Rightarrow> int list \<Rightarrow> nat \<Rightarrow> real option" where
  "loss_ce d d_gt input_lengths texts_size0 =
     nan_div (fold (\<lambda>(d_row, d_gt_row, text_length) acc.
                      nan_add acc (loss_ce_example d_row d_gt_row text_length))
                   (zip d (zip d_gt input_lengths)) (Some 0))
             texts_size0"

text \<open>
  The reading of the specification, for comparison: the L1 duration loss of one
  example taken over all of its valid tokens and divided by the valid length.
\<close>

definition spec_loss_dur_example :: "real list list \<Rightarrow> nat list \<Rightarrow> int \<Rightarrow> real option" where
  "spec_loss_dur_example d_row d_gt_row text_length =
     (if text_length \<le> 0 then None
      else Some (sum_list (map2 (\<lambda>x y. \<bar>x - y\<bar>)
                   (dur_pred_of (take (nat text_length) d_row))
                   (map of_nat (take (nat text_length) d_gt_row)))
                 / of_int text_length))"

section \<open>Validation reduction\<close>

text \<open>
  What one worker holds after its validation pass (lines 385 to 463): the three sums
  and the number of batches that went through.
\<close>

record val_acc =
  loss_test :: real
  loss_align :: real
  loss_f :: real
  iters_test :: nat

text \<open>
  \<^verbatim>\<open>xm.mesh_reduce(tag, data, reduce_fn)\<close> gathers the value of every worker, in ordinal
  order, and returns \<^verbatim>\<open>reduce_fn\<close> of that list to each of them. The program's
  \<^verbatim>\<open>reduce_fn\<close> is \<^verbatim>\<open>lambda x: sum(x) / len(x)\<close>.
\<close>

definition reduce_fn :: "real list \<Rightarrow> real" where
  "reduce_fn x = sum_list x / of_nat (length x)"

definition mesh_reduce :: "(real list \<Rightarrow> real) \<Rightarrow> real list \<Rightarrow> real" where
  "mesh_reduce f gathered = f gathered"

text \<open>
  Lines 466 to 476 on one worker: \<open>workers\<close> are the accumulators of all workers and
  \<open>me\<close> is the worker's own. The reported value is
  \<^verbatim>\<open>loss_test / max(iters_test, 1)\<close> with the reduced sum and the worker's own count.
\<close>

definition eval_mel_loss :: "val_acc list \<Rightarrow> val_acc \<Rightarrow> real" where
  "eval_mel_loss workers me =
     mesh_reduce reduce_fn (map loss_test workers) / of_nat (max (iters_test me) 1)"

definition eval_dur_loss :: "val_acc list \<Rightarrow> val_acc \<Rightarrow> real" where
  "eval_dur_loss workers me =
     mesh_reduce reduce_fn (map loss_align workers) / of_nat (max (iters_test me) 1)"

definition eval_F0_loss :: "val_acc list \<Rightarrow> val_acc \<Rightarrow> real" where
  "eval_F0_loss workers me =
     mesh_reduce reduce_fn (map loss_f workers) / of_nat (max (iters_test me) 1)"

text \<open>
  The reading of the specification, for comparison: the average over the workers of
  each worker's own average (its sum divided by its count).
\<close>

definition average_of_averages :: "(val_acc \<Rightarrow> real) \<Rightarrow> val_acc list \<Rightarrow> real" where
  "average_of_averages metric workers =
     sum_list (map (\<lambda>a. metric a / of_nat (iters_test a)) workers) / of_nat (length workers)"

section \<open>Tensor shapes\<close>

text \<open>
  \<^verbatim>\<open>F0_real.view(batch_size, -1)\<close> (line 284) on a tensor of the given shape: the
  library infers the second dimension and raises \<^verbatim>\<open>RuntimeError\<close> unless the first is
  positive and divides the number of elements.
\<close>

definition view :: "nat list \<Rightarrow> int \<Rightarrow> py_error + nat list" where
  "view shape rows =
     (if rows \<le> 0 then Inl (RuntimeError ''invalid shape dimension'')
      else if int (prod_list shape) mod rows \<noteq> 0
        then Inl (RuntimeError ''shape is invalid for input size'')
      else Inr [nat rows, prod_list shape div nat rows])"

text \<open>
  Two shapes broadcast when, aligned at their last dimension, each pair of sizes is
  equal or has a one. \<^verbatim>\<open>F.smooth_l1_loss\<close> broadcasts its arguments (with a warning
  that line 12 silences) and raises \<^verbatim>\<open>RuntimeError\<close> when they do not broadcast.
\<close>

fun broadcast_rev :: "nat list \<Rightarrow> nat list \<Rightarrow> bool" where
  "broadcast_rev [] ys = True"
| "broadcast_rev (x # xs) [] = True"
| "broadcast_rev (x # xs) (y # ys) = ((x = y \<or> x = 1 \<or> y = 1) \<and> broadcast_rev xs ys)"

definition broadcastable :: "nat list \<Rightarrow> nat list \<Rightarrow> bool" where
  "broadcastable s t = broadcast_rev (rev s) (rev t)"

definition smooth_l1_loss :: "nat list \<Rightarrow> nat list \<Rightarrow> py_error + unit" where
  "smooth_l1_loss input_shape target_shape =
     (if broadcastable input_shape target_shape then Inr ()
      else Inl (RuntimeError ''shapes do not broadcast''))"

section \<open>Effects of the training loop\<close>

text \<open>
  The calls the program makes on its collaborators, in the order it makes them. A
  run is a list of events and either the exception that ended it or its result.
\<close>

datatype attn = Soft | Mono

datatype event =
    Print string
  | PrintFound nat
  | MakeDirs
  | CopyConfig
  | SummaryWriter
  | FileHandler
  | GetDataPathList
  | BuildDataloader bool
  | BuildModel nat
  | BuildOptimizer
  | LoadCheckpoint
  | Forward string
  | MaximumPath
  | GetRandBits
  | Asr attn
  | ZeroGrad
  | Backward string
  | OptStep string
  | MarkStep
  | LoggerInfo
  | AddScalar string int
  | XmSave string
  | XmSaveEpoch int
  | MeshReduce string

definition then_do :: "event list \<times> (py_error + 'a) \<Rightarrow> ('a \<Rightarrow> event list \<times> (py_error + 'b))
    \<Rightarrow> event list \<times> (py_error + 'b)" where
  "then_do m f =
     (case m of
        (t, Inl e) \<Rightarrow> (t, Inl e)
      | (t, Inr a) \<Rightarrow> (case f a of (t', r) \<Rightarrow> (t @ t', r)))"

definition emit :: "event list \<Rightarrow> event list \<times> (py_error + unit)" where
  "emit evs = (evs, Inr ())"

definition lift :: "py_error + 'a \<Rightarrow> event list \<times> (py_error + 'a)" where
  "lift r = ([], r)"

definition py_mod :: "int \<Rightarrow> int \<Rightarrow> py_error + int" where
  "py_mod a b = (if b = 0 then Inl ZeroDivisionError else Inr (a mod b))"

text \<open>
  What the collaborators do on one batch, as far as the control flow of the program
  depends on it: the lengths of the mel spectrograms of the batch (one per example),
  whether the aligner's forward, or the slicing of its attention in the same
  \<^verbatim>\<open>try\<close> (lines 226 to 229), raises, the random bit of line 242, the shapes of the
  real and the predicted pitch tensors, whether \<^verbatim>\<open>torch.isnan(g_loss)\<close> holds, and
  the three scalar losses of a validation batch. Every other collaborator call
  returns.
\<close>

record batch_obs =
  mel_input_length :: "nat list"
  aligner_raises :: bool
  randbit :: bool
  F0_real_shape :: "nat list"
  F0_fake_shape :: "nat list"
  g_loss_isnan :: bool
  val_loss_mel :: real
  val_loss_dur :: real
  val_loss_F0 :: real

text \<open>The settings of the loop: lines 56 and 70 to 79.\<close>

record loop_params =
  is_master :: bool
  batch_size :: int
  epochs :: int
  save_freq :: int
  log_interval :: int
  max_len :: int

text \<open>Lines 289 to 296.\<close>

definition discriminator_update :: "event list \<times> (py_error + unit)" where
  "discriminator_update =
     emit [ZeroGrad, Backward ''d_loss'', OptStep ''msd'', OptStep ''mpd'', MarkStep]"

text \<open>Lines 298 to 347; \<open>isnan\<close> is the value of \<^verbatim>\<open>torch.isnan(g_loss)\<close>.\<close>

definition generator_update :: "bool \<Rightarrow> event list \<times> (py_error + unit)" where
  "generator_update isnan =
     then_do (emit [ZeroGrad, Backward ''g_loss''])
       (\<lambda>_. if isnan then lift (Inl (RuntimeError ''NaN loss detected''))
            else emit [OptStep ''predictor'', OptStep ''style_encoder'', OptStep ''decoder'',
                       OptStep ''text_encoder'', OptStep ''text_aligner'', MarkStep])"

text \<open>
  Lines 351 to 380, after \<^verbatim>\<open>iters += 1\<close>: the log every \<^verbatim>\<open>log_interval\<close> batches and
  the interim checkpoint every 1000 steps, both on the master only. \<open>i\<close> is the index
  of the batch in the epoch, \<open>iters\<close> the counter after the increment.
\<close>

definition log_step :: "loop_params \<Rightarrow> int \<Rightarrow> int \<Rightarrow> event list \<times> (py_error + unit)" where
  "log_step p i iters =
     (if is_master p then
        then_do (lift (py_mod (i + 1) (log_interval p)))
          (\<lambda>m. if m = 0 then
                 emit [LoggerInfo,
                       AddScalar ''train/mel_loss'' iters, AddScalar ''train/gen_loss'' iters,
                       AddScalar ''train/d_loss'' iters, AddScalar ''train/ce_loss'' iters,
                       AddScalar ''train/dur_loss'' iters, AddScalar ''train/norm_loss'' iters,
                       AddScalar ''train/F0_loss'' iters, Print ''Time elapsed:'']
               else emit [])
      else emit [])"

definition interim_checkpoint :: "loop_params \<Rightarrow> int \<Rightarrow> event list \<times> (py_error + unit)" where
  "interim_checkpoint p iters =
     (if iters mod 1000 = 0 \<and> is_master p then emit [XmSave ''current_model.pth''] else emit [])"

text \<open>Lines 349 to 380: \<^verbatim>\<open>iters += 1\<close>, then the log and the interim checkpoint.\<close>

definition commit_step :: "loop_params \<Rightarrow> int \<Rightarrow> int \<Rightarrow> event list \<times> (py_error + int)" where
  "commit_step p i iters =
     then_do (log_step p i (iters + 1)) (\<lambda>_.
     then_do (interim_checkpoint p (iters + 1)) (\<lambda>_.
     ([], Inr (iters + 1))))"

text \<open>
  The collaborator calls of lines 226 to 253 (aligner, hard path, text encoder, the
  random bit and the product it selects, style encoder, predictor) and of lines 273
  to 281 (style encoder, pitch extractor, pitch and energy predictor, decoder).
\<close>

definition forward_events :: "batch_obs \<Rightarrow> event list" where
  "forward_events b =
     [Forward ''text_aligner'', MaximumPath, Forward ''text_encoder'',
      GetRandBits, Asr (if randbit b then Soft else Mono),
      Forward ''style_encoder'', Forward ''predictor'']"

definition decode_events :: "event list" where
  "decode_events =
     [Forward ''style_encoder'', Forward ''pitch_extractor'',
      Forward ''predictor.F0Ntrain'', Forward ''decoder'']"

text \<open>
  One pass of the body of the batch loop (lines 216 to 380). The result is the value
  of \<^verbatim>\<open>iters\<close> with which the loop goes on, or the exception that leaves the loop.
  When the aligner raises, \<^verbatim>\<open>except Exception\<close> commits the graph and continues.
\<close>

definition train_batch :: "loop_params \<Rightarrow> int \<Rightarrow> batch_obs \<Rightarrow> int \<Rightarrow> event list \<times> (py_error + int)" where
  "train_batch p i b iters =
     (if aligner_raises b then ([Forward ''text_aligner'', MarkStep], Inr iters)
      else
        then_do (emit (forward_events b)) (\<lambda>_.
        then_do (lift (mel_len_train (mel_input_length b) (max_len p))) (\<lambda>mel_len.
        then_do (lift (sample_batch (mel_input_length b) mel_len)) (\<lambda>_.
        then_do (emit decode_events) (\<lambda>_.
        then_do (lift (view (F0_real_shape b) (batch_size p))) (\<lambda>F0_real.
        then_do (lift (smooth_l1_loss F0_real (F0_fake_shape b))) (\<lambda>_.
        then_do discriminator_update (\<lambda>_.
        then_do (generator_update (g_loss_isnan b)) (\<lambda>_.
        commit_step p i iters)))))))))"

text \<open>Line 215: \<^verbatim>\<open>for i, batch in enumerate(train_loader)\<close>.\<close>

fun train_batches :: "loop_params \<Rightarrow> int \<Rightarrow> batch_obs list \<Rightarrow> int \<Rightarrow> event list \<times> (py_error + int)" where
  "train_batches p i [] iters = ([], Inr iters)"
| "train_batches p i (b # bs) iters =
     then_do (train_batch p i b iters) (\<lambda>iters'. train_batches p (i + 1) bs iters')"

text \<open>
  The body of the validation loop (lines 393 to 463): the whole batch is inside a
  \<^verbatim>\<open>try\<close>, and \<^verbatim>\<open>except Exception\<close> commits the graph and goes to the next batch.
  The pitch loss of line 454, \<^verbatim>\<open>F.l1_loss\<close> of the unreshaped tensors, broadcasts as
  \<^verbatim>\<open>F.smooth_l1_loss\<close> does.
\<close>

definition val_try :: "batch_obs \<Rightarrow> event list \<times> (py_error + unit)" where
  "val_try b =
     then_do (emit [ZeroGrad, Forward ''text_aligner'']) (\<lambda>_.
     then_do (lift (if aligner_raises b then Inl (RuntimeError ''text_aligner'') else Inr ())) (\<lambda>_.
     then_do (emit [MaximumPath, Forward ''text_encoder'', Asr Mono,
                    Forward ''style_encoder'', Forward ''predictor'']) (\<lambda>_.
     then_do (lift (mel_len_val (mel_input_length b))) (\<lambda>mel_len.
     then_do (lift (sample_batch (mel_input_length b) mel_len)) (\<lambda>_.
     then_do (emit [Forward ''style_encoder'', Forward ''predictor.F0Ntrain'',
                    Forward ''decoder'', Forward ''pitch_extractor'']) (\<lambda>_.
     lift (smooth_l1_loss (F0_real_shape b) (F0_fake_shape b))))))))"

definition val_batch :: "batch_obs \<Rightarrow> val_acc \<Rightarrow> event list \<times> val_acc" where
  "val_batch b acc =
     (case val_try b of
        (t, Inl e) \<Rightarrow> (t @ [MarkStep], acc)
      | (t, Inr _) \<Rightarrow>
          (t, acc\<lparr>loss_test := loss_test acc + val_loss_mel b,
                  loss_align := loss_align acc + val_loss_dur b,
                  loss_f := loss_f acc + val_loss_F0 b,
                  iters_test := iters_test acc + 1\<rparr>))"

fun val_batches :: "batch_obs list \<Rightarrow> val_acc \<Rightarrow> event list \<times> val_acc" where
  "val_batches [] acc = ([], acc)"
| "val_batches (b # bs) acc =
     (case val_batch b acc of (t, acc') \<Rightarrow>
        (case val_batches bs acc' of (t', acc'') \<Rightarrow> (t @ t', acc'')))"

text \<open>Lines 465 to 491: the reduction, the report and the checkpoint of the epoch.\<close>

definition epoch_report :: "loop_params \<Rightarrow> int \<Rightarrow> event list \<times> (py_error + unit)" where
  "epoch_report p epoch =
     then_do (emit [MeshReduce ''loss_test'', MeshReduce ''loss_align'', MeshReduce ''loss_f'']) (\<lambda>_.
     if is_master p then
       then_do (emit [Print ''Epochs:'', LoggerInfo,
                      AddScalar ''eval/mel_loss'' (epoch + 1), AddScalar ''eval/dur_loss'' (epoch + 1),
                      AddScalar ''eval/F0_loss'' (epoch + 1)]) (\<lambda>_.
       then_do (lift (py_mod (epoch + 1) (save_freq p))) (\<lambda>m.
       if m = 0 then emit [Print ''Saving..'', XmSaveEpoch epoch] else emit []))
     else emit [])"

text \<open>
  The batches that the two loaders yield in each epoch are the input of the loop
  (lines 204 to 491).
\<close>

record loaders =
  train_loader :: "int \<Rightarrow> batch_obs list"
  val_loader :: "int \<Rightarrow> batch_obs list"

definition run_epoch :: "loop_params \<Rightarrow> loaders \<Rightarrow> int \<Rightarrow> int \<Rightarrow> event list \<times> (py_error + int)" where
  "run_epoch p ld epoch iters =
     then_do (train_batches p 0 (train_loader ld epoch) iters) (\<lambda>iters'.
     then_do (emit (if is_master p then [Print ''Evaluating...''] else [])) (\<lambda>_.
     then_do (emit (fst (val_batches (val_loader ld epoch)
                           \<lparr>loss_test = 0, loss_align = 0, loss_f = 0, iters_test = 0\<rparr>))) (\<lambda>_.
     then_do (epoch_report p epoch) (\<lambda>_.
     ([], Inr iters')))))"

text \<open>Line 204: \<^verbatim>\<open>for epoch in range(start_epoch, epochs)\<close>.\<close>

fun run_epochs :: "loop_params \<Rightarrow> loaders \<Rightarrow> int list \<Rightarrow> int \<Rightarrow> event list \<times> (py_error + int)" where
  "run_epochs p ld [] iters = ([], Inr iters)"
| "run_epochs p ld (epoch # rest) iters =
     then_do (run_epoch p ld epoch iters) (\<lambda>iters'. run_epochs p ld rest iters')"

section \<open>Configuration and start-up\<close>

text \<open>
  The configuration is what \<^verbatim>\<open>yaml.safe_load\<close> returns: a YAML value. A Python string
  is a sequence of code points; the keys of a mapping are strings.
\<close>

datatype yaml =
    YNull
  | YBool bool
  | YInt int
  | YFloat rat
  | YStr "nat list"
  | YSeq "yaml list"
  | YMap "(string \<times> yaml) list"

definition ystr :: "string \<Rightarrow> yaml" where
  "ystr s = YStr (map of_char s)"

definition bind_err :: "py_error + 'a \<Rightarrow> ('a \<Rightarrow> py_error + 'b) \<Rightarrow> py_error + 'b" where
  "bind_err m f = (case m of Inl e \<Rightarrow> Inl e | Inr a \<Rightarrow> f a)"

text \<open>\<^verbatim>\<open>v[k]\<close> for a string key \<open>k\<close>.\<close>

definition getitem :: "yaml \<Rightarrow> string \<Rightarrow> py_error + yaml" where
  "getitem v k =
     (case v of
        YMap kvs \<Rightarrow> (case map_of kvs k of None \<Rightarrow> Inl (KeyError k) | Some x \<Rightarrow> Inr x)
      | YStr s \<Rightarrow> Inl (TypeError ''string indices must be integers'')
      | YSeq xs \<Rightarrow> Inl (TypeError ''list indices must be integers or slices, not str'')
      | _ \<Rightarrow> Inl (TypeError ''object is not subscriptable''))"

text \<open>\<^verbatim>\<open>v.get(k, default)\<close>.\<close>

definition py_get :: "yaml \<Rightarrow> string \<Rightarrow> yaml \<Rightarrow> py_error + yaml" where
  "py_get v k dflt =
     (case v of
        YMap kvs \<Rightarrow> (case map_of kvs k of None \<Rightarrow> Inr dflt | Some x \<Rightarrow> Inr x)
      | _ \<Rightarrow> Inl (AttributeError ''get''))"

text \<open>The name of the Python type of a value, as error messages print it.\<close>

fun type_name :: "yaml \<Rightarrow> string" where
  "type_name YNull = ''NoneType''"
| "type_name (YBool b) = ''bool''"
| "type_name (YInt n) = ''int''"
| "type_name (YFloat q) = ''float''"
| "type_name (YStr s) = ''str''"
| "type_name (YSeq xs) = ''list''"
| "type_name (YMap kvs) = ''dict''"

text \<open>
  \<^verbatim>\<open>list(v)\<close>: the characters of a string, the items of a list, the keys of a mapping;
  for any other value \<^verbatim>\<open>TypeError\<close> with the message
  \<^verbatim>\<open>'<type>' object is not iterable\<close>.
\<close>

definition py_list :: "yaml \<Rightarrow> py_error + yaml list" where
  "py_list v =
     (case v of
        YStr s \<Rightarrow> Inr (map (\<lambda>c. YStr [c]) s)
      | YSeq xs \<Rightarrow> Inr xs
      | YMap kvs \<Rightarrow> Inr (map (\<lambda>kv. ystr (fst kv)) kvs)
      | _ \<Rightarrow> Inl (TypeError (CHR 0x27 # type_name v @ CHR 0x27 # '' object is not iterable'')))"

text \<open>
  \<^verbatim>\<open>Munch(v)\<close> and \<^verbatim>\<open>recursive_munch(v)\<close> followed by an item assignment need a mapping;
  \<^verbatim>\<open>m.k\<close> on a Munch raises \<^verbatim>\<open>AttributeError\<close> for a key it does not hold.
\<close>

definition munch :: "yaml \<Rightarrow> py_error + yaml" where
  "munch v = (case v of YMap kvs \<Rightarrow> Inr (YMap kvs) | _ \<Rightarrow> Inl (TypeError ''not a mapping''))"

definition getattr :: "yaml \<Rightarrow> string \<Rightarrow> py_error + yaml" where
  "getattr v k =
     (case v of
        YMap kvs \<Rightarrow> (case map_of kvs k of None \<Rightarrow> Inl (AttributeError k) | Some x \<Rightarrow> Inr x)
      | _ \<Rightarrow> Inl (AttributeError k))"

text \<open>
  An entry used as an integer. The model reads every such entry when the loop starts;
  a boolean is an integer in Python.
\<close>

definition yaml_int :: "yaml \<Rightarrow> py_error + int" where
  "yaml_int v =
     (case v of
        YInt n \<Rightarrow> Inr n
      | YBool b \<Rightarrow> Inr (if b then 1 else 0)
      | _ \<Rightarrow> Inl (TypeError ''an integer is required''))"

text \<open>
  \<^verbatim>\<open>str(e)\<close> of a caught exception: for a \<^verbatim>\<open>KeyError\<close> it is the \<^verbatim>\<open>repr\<close> of the
  key, the key between single quotes.
\<close>

definition py_repr :: "string \<Rightarrow> string" where
  "py_repr k = CHR 0x27 # k @ [CHR 0x27]"

fun error_str :: "py_error \<Rightarrow> string" where
  "error_str (KeyError k) = py_repr k"
| "error_str (TypeError m) = m"
| "error_str (AttributeError m) = m"
| "error_str (ValueError m) = m"
| "error_str ZeroDivisionError = ''division by zero''"
| "error_str (RuntimeError m) = m"
| "error_str (Exception m) = m"
| "error_str (SystemExit n) = []"

text \<open>
  The exit status of the worker process: that of \<^verbatim>\<open>SystemExit\<close>, 1 for any other
  exception that leaves \<^verbatim>\<open>_mp_fn\<close>, 0 when it returns.
\<close>

fun exit_status :: "py_error + 'a \<Rightarrow> int" where
  "exit_status (Inl (SystemExit n)) = n"
| "exit_status (Inl e) = 1"
| "exit_status (Inr a) = 0"

text \<open>
  Lines 82 to 90. \<^verbatim>\<open>list(config['symbol'][k])\<close> for the five keys in the order of the
  source, then the dictionary of the symbols: a key of a dictionary must be hashable,
  and keys that Python compares equal (\<^verbatim>\<open>True\<close> and 1, 1.0 and 1) are one key.
\<close>

definition symbol_entry :: "yaml \<Rightarrow> string \<Rightarrow> py_error + yaml list" where
  "symbol_entry config k =
     bind_err (getitem config ''symbol'') (\<lambda>block. bind_err (getitem block k) py_list)"

fun hashable :: "yaml \<Rightarrow> bool" where
  "hashable (YSeq xs) = False"
| "hashable (YMap kvs) = False"
| "hashable v = True"

fun dict_key :: "yaml \<Rightarrow> yaml" where
  "dict_key (YBool b) = YInt (if b then 1 else 0)"
| "dict_key (YFloat q) = (if of_int \<lfloor>q\<rfloor> = q then YInt \<lfloor>q\<rfloor> else YFloat q)"
| "dict_key v = v"

definition n_token_of :: "yaml list \<Rightarrow> py_error + nat" where
  "n_token_of symbols =
     (if list_all hashable symbols then Inr (length (remdups (map dict_key symbols)) + 1)
      else Inl (TypeError ''unhashable type''))"

definition symbol_keys :: "string list" where
  "symbol_keys = [''pad'', ''punctuation'', ''letters'', ''letters_ipa'', ''extend'']"

definition read_symbols :: "yaml \<Rightarrow> py_error + nat" where
  "read_symbols config =
     bind_err (symbol_entry config ''pad'') (\<lambda>pad.
     bind_err (symbol_entry config ''punctuation'') (\<lambda>punctuation.
     bind_err (symbol_entry config ''letters'') (\<lambda>letters.
     bind_err (symbol_entry config ''letters_ipa'') (\<lambda>letters_ipa.
     bind_err (symbol_entry config ''extend'') (\<lambda>extend.
     n_token_of (pad @ punctuation @ letters @ letters_ipa @ extend))))))"

text \<open>
  Lines 81 to 95: the \<^verbatim>\<open>try\<close> around it, and its \<^verbatim>\<open>except Exception\<close>, which prints
  a line feed, \<^verbatim>\<open>ERROR: Cannot find {e} in config file!\<close>, a line feed and
  \<^verbatim>\<open>Your config is likely outdated.\<close>, and raises \<^verbatim>\<open>SystemExit(1)\<close>.
\<close>

definition symbols_or_exit :: "bool \<Rightarrow> yaml \<Rightarrow> event list \<times> (py_error + nat)" where
  "symbols_or_exit is_master_v config =
     (case read_symbols config of
        Inl e \<Rightarrow>
          ([Print (CHR 0x0A # ''ERROR: Cannot find '' @ error_str e @ '' in config file!''
                   @ CHR 0x0A # ''Your config is likely outdated.'')],
           Inl (SystemExit 1))
      | Inr n_token \<Rightarrow> (if is_master_v then [PrintFound n_token] else [], Inr n_token))"

text \<open>
  Lines 55 to 68: the log directory, and on the master its creation, the copy of the
  configuration, the writer and the log file; these need a string.
\<close>

definition log_setup :: "bool \<Rightarrow> yaml \<Rightarrow> event list \<times> (py_error + unit)" where
  "log_setup is_master_v log_dir =
     (if is_master_v then
        (case log_dir of
           YStr s \<Rightarrow> emit [MakeDirs, CopyConfig, SummaryWriter, FileHandler]
         | _ \<Rightarrow> lift (Inl (TypeError ''expected str, bytes or os.PathLike object'')))
      else emit [])"

text \<open>
  What the start-up takes from outside the configuration: whether this worker is the
  master, the epoch and the step count that \<^verbatim>\<open>load_checkpoint\<close> returns, and the
  batches of the loaders.
\<close>

record world =
  master :: bool
  ckpt_epoch :: int
  ckpt_iters :: "int option"
  batches :: loaders

text \<open>
  Lines 177 to 191. \<open>pretrained\<close> is \<^verbatim>\<open>config.get('pretrained_model', '')\<close>; the
  arguments of \<^verbatim>\<open>load_checkpoint\<close> are evaluated before the call.
\<close>

definition load_pretrained :: "world \<Rightarrow> yaml \<Rightarrow> yaml \<Rightarrow> event list \<times> (py_error + int \<times> int option)" where
  "load_pretrained w config pretrained =
     (if pretrained \<noteq> YStr [] then
        then_do (case getitem config ''training_strats'' of
                   Inl e \<Rightarrow>
                     (if master w then [Print ''No training_strats found in config. Proceeding with default settings...''] else [],
                      Inr (YMap [(''ignore_modules'', YStr []), (''freeze_modules'', YStr [])]))
                 | Inr ts \<Rightarrow> ([], Inr ts)) (\<lambda>training_strats.
        then_do (lift (getitem config ''pretrained_model'')) (\<lambda>_.
        then_do (lift (py_get config ''load_only_params'' (YBool True))) (\<lambda>_.
        then_do (lift (getitem training_strats ''ignore_modules'')) (\<lambda>_.
        then_do (lift (getitem training_strats ''freeze_modules'')) (\<lambda>_.
        then_do (emit [LoadCheckpoint]) (\<lambda>_.
        ([], Inr (ckpt_epoch w, ckpt_iters w))))))))
      else lift (Inl (Exception ''Must have a pretrained!'')))"

text \<open>
  Lines 55 to 79: the log directory and the settings. The five settings that the
  loop uses as integers are kept as they are in the configuration.
\<close>

record settings =
  batch_size_v :: yaml
  epochs_v :: yaml
  save_freq_v :: yaml
  log_interval_v :: yaml
  max_len_v :: yaml

definition read_settings :: "bool \<Rightarrow> yaml \<Rightarrow> event list \<times> (py_error + settings)" where
  "read_settings is_master_v config =
     then_do (lift (getitem config ''log_dir'')) (\<lambda>log_dir.
     then_do (log_setup is_master_v log_dir) (\<lambda>_.
     then_do (lift (py_get config ''batch_size'' (YInt 10))) (\<lambda>bs.
     then_do (lift (py_get config ''debug'' (YBool True))) (\<lambda>_.
     then_do (lift (py_get config ''epochs'' (YInt 200))) (\<lambda>ep.
     then_do (lift (py_get config ''save_freq'' (YInt 2))) (\<lambda>sf.
     then_do (lift (py_get config ''log_interval'' (YInt 10))) (\<lambda>li.
     then_do (lift (py_get config ''data_params'' YNull)) (\<lambda>data_params.
     then_do (lift (getitem data_params ''train_data'')) (\<lambda>_.
     then_do (lift (getitem data_params ''val_data'')) (\<lambda>_.
     then_do (lift (getitem data_params ''root_path'')) (\<lambda>_.
     then_do (lift (py_get config ''max_len'' (YInt 200))) (\<lambda>ml.
     ([], Inr \<lparr>batch_size_v = bs, epochs_v = ep, save_freq_v = sf,
                log_interval_v = li, max_len_v = ml\<rparr>)))))))))))))"

text \<open>
  Lines 97 to 174: the loss and optimizer parameters, the data lists, the two
  dataloaders, the model, the optimizer. The result is
  \<^verbatim>\<open>config.get('pretrained_model', '')\<close> of line 145.
\<close>

definition build_all :: "bool \<Rightarrow> yaml \<Rightarrow> nat \<Rightarrow> event list \<times> (py_error + yaml)" where
  "build_all is_master_v config n_token =
     then_do (lift (bind_err (getitem config ''loss_params'') munch)) (\<lambda>_.
     then_do (lift (bind_err (getitem config ''optimizer_params'') munch)) (\<lambda>optimizer_params.
     then_do (emit ([GetDataPathList]
                    @ (if is_master_v then [Print ''Initializing train_dataloader''] else [])
                    @ [BuildDataloader False]
                    @ (if is_master_v then [Print ''Initializing val_dataloader''] else [])
                    @ [BuildDataloader True])) (\<lambda>_.
     then_do (lift (bind_err (getitem config ''model_params'') munch)) (\<lambda>_.
     then_do (emit [BuildModel n_token]) (\<lambda>_.
     then_do (lift (py_get config ''pretrained_model'' (YStr []))) (\<lambda>pretrained.
     then_do (lift (getattr optimizer_params ''lr'')) (\<lambda>_.
     then_do (lift (getattr optimizer_params ''ft_lr'')) (\<lambda>_.
     then_do (emit [BuildOptimizer]) (\<lambda>_.
     ([], Inr pretrained))))))))))"

text \<open>
  The settings of the loop as integers, the first epoch, and the step count (line
  196: \<^verbatim>\<open>iters = int(iters) if iters is not None else 0\<close>).
\<close>

definition loop_settings :: "bool \<Rightarrow> settings \<Rightarrow> int \<times> int option
    \<Rightarrow> event list \<times> (py_error + loop_params \<times> int \<times> int)" where
  "loop_settings is_master_v s ckpt =
     then_do (lift (yaml_int (batch_size_v s))) (\<lambda>bs.
     then_do (lift (yaml_int (epochs_v s))) (\<lambda>ep.
     then_do (lift (yaml_int (save_freq_v s))) (\<lambda>sf.
     then_do (lift (yaml_int (log_interval_v s))) (\<lambda>li.
     then_do (lift (yaml_int (max_len_v s))) (\<lambda>ml.
     then_do (emit (if is_master_v then [Print ''decoder''] else [])) (\<lambda>_.
     ([], Inr (\<lparr>is_master = is_master_v, batch_size = bs, epochs = ep, save_freq = sf,
                 log_interval = li, max_len = ml\<rparr>,
               fst ckpt,
               (case snd ckpt of None \<Rightarrow> 0 | Some n \<Rightarrow> n)))))))))"

text \<open>Lines 53 to 201: everything before the loop.\<close>

definition startup :: "world \<Rightarrow> yaml \<Rightarrow> event list \<times> (py_error + loop_params \<times> int \<times> int)" where
  "startup w config =
     then_do (read_settings (master w) config) (\<lambda>s.
     then_do (symbols_or_exit (master w) config) (\<lambda>n_token.
     then_do (build_all (master w) config n_token) (\<lambda>pretrained.
     then_do (load_pretrained w config pretrained) (\<lambda>ckpt.
     loop_settings (master w) s ckpt))))"

text \<open>
  The events that belong to an optimizer phase, and the events of the batch loop: the
  observations that the statements about a training step are made on.
\<close>

fun optimizer_event :: "event \<Rightarrow> bool" where
  "optimizer_event ZeroGrad = True"
| "optimizer_event (Backward l) = True"
| "optimizer_event (OptStep m) = True"
| "optimizer_event MarkStep = True"
| "optimizer_event e = False"

text \<open>The events of building the two dataloaders and the model.\<close>

fun build_event :: "event \<Rightarrow> bool" where
  "build_event (BuildDataloader v) = True"
| "build_event (BuildModel n) = True"
| "build_event e = False"

fun asr_event :: "event \<Rightarrow> bool" where
  "asr_event GetRandBits = True"
| "asr_event (Asr a) = True"
| "asr_event e = False"

fun training_event :: "event \<Rightarrow> bool" where
  "training_event (Forward m) = True"
| "training_event MaximumPath = True"
| "training_event GetRandBits = True"
| "training_event (Asr a) = True"
| "training_event ZeroGrad = True"
| "training_event (Backward l) = True"
| "training_event (OptStep m) = True"
| "training_event MarkStep = True"
| "training_event e = False"

text \<open>The events of loading the checkpoint and of the loop.\<close>

definition run_event :: "event \<Rightarrow> bool" where
  "run_event e = (training_event e \<or> e = LoadCheckpoint)"

text \<open>The whole of \<^verbatim>\<open>_mp_fn\<close>: the start-up, the epochs, the final message.\<close>

definition mp_fn :: "world \<Rightarrow> yaml \<Rightarrow> event list \<times> (py_error + unit)" where
  "mp_fn w config =
     then_do (startup w config) (\<lambda>(p, start_epoch, iters).
     then_do (run_epochs p (batches w) [start_epoch..epochs p - 1] iters) (\<lambda>_.
     emit (if is_master p then [Print ''Training finished.''] else [])))"

section \<open>Example inputs\<close>

text \<open>Settings and a batch of two examples on which a training step runs to its end.\<close>

definition example_params :: loop_params where
  "example_params = \<lparr>is_master = True, batch_size = 2, epochs = 1, save_freq = 1,
                      log_interval = 10, max_len = 200\<rparr>"

definition example_batch :: batch_obs where
  "example_batch = \<lparr>mel_input_length = [12, 20], aligner_raises = False, randbit = True,
                     F0_real_shape = [2, 10], F0_fake_shape = [2, 10], g_loss_isnan = False,
                     val_loss_mel = 1, val_loss_dur = 1, val_loss_F0 = 1\<rparr>"

text \<open>
  A configuration with every required entry but \<^verbatim>\<open>pretrained_model\<close>, and a master
  worker whose loaders yield no batch.
\<close>

definition example_entries :: "(string \<times> yaml) list" where
  "example_entries =
     [(''log_dir'', ystr ''Models/run''),
      (''data_params'', YMap [(''train_data'', ystr ''train.txt''), (''val_data'', ystr ''val.txt''),
                              (''root_path'', ystr ''wavs'')]),
      (''symbol'', YMap [(''pad'', ystr ''$''), (''punctuation'', ystr '';''),
                         (''letters'', ystr ''ab''), (''letters_ipa'', ystr ''c''),
                         (''extend'', ystr [])]),
      (''loss_params'', YMap [(''lambda_mel'', YInt 5)]),
      (''optimizer_params'', YMap [(''lr'', YFloat (1 / 10000)), (''ft_lr'', YFloat (1 / 100000))]),
      (''model_params'', YMap [])]"

definition example_world :: world where
  "example_world = \<lparr>master = True, ckpt_epoch = 0, ckpt_iters = None,
                     batches = \<lparr>train_loader = (\<lambda>epoch. []), val_loader = (\<lambda>epoch. [])\<rparr>\<rparr>"

section \<open>Facts about the sampler\<close>






lemma py_slice_window:
  assumes "0 \<le> a" "0 \<le> n"
  shows "py_slice xs a (a + n) = take (nat n) (drop (nat a) xs)"
proof (cases "nat a \<le> length xs")
  case True
  have "py_bound (length xs) a = nat a" using assms True by (simp add: py_bound_def)
  moreover have "py_bound (length xs) (a + n) = min (length xs) (nat a + nat n)"
    using assms by (simp add: py_bound_def nat_add_distrib)
  ultimately have "py_slice xs a (a + n) = take (min (length xs) (nat a + nat n) - nat a) (drop (nat a) xs)"
    by (simp add: py_slice_def)
  also have "min (length xs) (nat a + nat n) - nat a = min (length (drop (nat a) xs)) (nat n)"
    using True by (simp add: min_def)
  also have "take (min (length (drop (nat a) xs)) (nat n)) (drop (nat a) xs) = take (nat n) (drop (nat a) xs)"
    by (simp add: min_def)
  finally show ?thesis .
next
  case False
  then show ?thesis using assms by (simp add: py_slice_def py_bound_def)
qed

lemma py_int_numeral: "py_int (numeral n) = numeral n"
  by (simp add: py_int_def)



section \<open>Facts about the reduction and the losses\<close>

lemma sum_list_divide_const:
  "sum_list (map (\<lambda>a. f a / (c::real)) xs) = sum_list (map f xs) / c"
  by (induction xs) (simp_all add: add_divide_distrib)

lemma average_of_averages_equal_counts:
  assumes "\<forall>a \<in> set workers. iters_test a = c"
  shows "average_of_averages metric workers
       = sum_list (map metric workers) / of_nat (length workers) / of_nat c"
proof -
  have "map (\<lambda>a. metric a / of_nat (iters_test a)) workers = map (\<lambda>a. metric a / of_nat c) workers"
    using assms by (intro map_cong) auto
  then have "average_of_averages metric workers
       = sum_list (map metric workers) / of_nat c / of_nat (length workers)"
    unfolding average_of_averages_def by (simp only: sum_list_divide_const)
  then show ?thesis by (simp add: mult.commute)
qed

lemma py_slice_prefix: "0 \<le> n \<Longrightarrow> py_slice xs 0 n = take (nat n) xs"
  using py_slice_window [of 0 n xs] by simp

lemma py_slice_interior: "2 \<le> n \<Longrightarrow> py_slice xs 1 (n - 1) = take (nat n - 2) (drop 1 xs)"
proof -
  assume n: "2 \<le> n"
  have "py_slice xs 1 (1 + (n - 2)) = take (nat (n - 2)) (drop (nat 1) xs)"
    using n by (intro py_slice_window) auto
  moreover have "nat (n - 2) = nat n - 2" using n by simp
  ultimately show ?thesis by (simp add: algebra_simps)
qed

lemma mean_Some: "xs \<noteq> [] \<Longrightarrow> mean xs = Some (sum_list xs / of_nat (length xs))"
  by (simp add: mean_def)

lemma dur_pred_take: "dur_pred_of (take n rows) = take n (dur_pred_of rows)"
  by (simp add: dur_pred_of_def take_map)

lemma interior_of_prefix:
  "take (n - 2) (drop (Suc 0) (take n xs)) = take (n - 2) (drop (Suc 0) xs)"
  by (simp add: drop_take min_def)

lemma length_s2s_trg_row: "length (s2s_trg_row w k) = w"
  by (simp add: s2s_trg_row_def)

lemma length_concat_const:
  "\<forall>row \<in> set rows. length row = D \<Longrightarrow> length (concat rows) = length rows * D"
  by (induction rows) simp_all

lemma loss_dur_example_eq:
  assumes L: "3 \<le> L" and dl: "nat L \<le> length d_row" and gl: "nat L \<le> length g"
  shows "loss_dur_example d_row g L
       = Some (sum_list (map2 (\<lambda>x y. \<bar>x - y\<bar>)
                  (take (nat L - 2) (drop 1 (dur_pred_of d_row)))
                  (map of_nat (take (nat L - 2) (drop 1 g))))
               / of_int (L - 2))"
proof -
  have L0: "0 \<le> L" and L2: "2 \<le> L" using L by auto
  let ?xs = "take (nat L - 2) (drop 1 (dur_pred_of d_row))"
  let ?ys = "map real (take (nat L - 2) (drop 1 g))"
  have e: "loss_dur_example d_row g L = l1_loss ?xs ?ys"
    by (simp add: loss_dur_example_def s2s_pred_of_def text_input_of_def py_slice_prefix [OF L0]
        py_slice_interior [OF L2] dur_pred_take interior_of_prefix)
  have lx: "length ?xs = nat L - 2" using dl by (simp add: dur_pred_of_def)
  have ly: "length ?ys = nat L - 2" using gl by simp
  have lz: "length (map2 (\<lambda>x y. \<bar>x - y\<bar>) ?xs ?ys) = nat L - 2" using lx ly by simp
  have pos: "0 < nat L - 2" using L by simp
  have ne: "map2 (\<lambda>x y. \<bar>x - y\<bar>) ?xs ?ys \<noteq> []"
  proof
    assume "map2 (\<lambda>x y. \<bar>x - y\<bar>) ?xs ?ys = []"
    then have "length (map2 (\<lambda>x y. \<bar>x - y\<bar>) ?xs ?ys) = 0" by (simp only: list.size)
    with lz pos show False by simp
  qed
  have "real (nat L - 2) = of_int (L - 2)" using L by simp
  then show ?thesis unfolding e l1_loss_def mean_Some [OF ne] lz by simp
qed

lemma loss_ce_example_eq:
  assumes L: "1 \<le> L" and dl: "nat L \<le> length d_row" and gl: "nat L \<le> length g"
    and w: "\<forall>row \<in> set d_row. length row = D" and D: "0 < D"
  shows "loss_ce_example d_row g L
       = Some (sum_list (map2 bce_term
                  (concat (take (nat L) d_row))
                  (concat (map2 (\<lambda>row k. s2s_trg_row (length row) k) (take (nat L) d_row) (take (nat L) g))))
               / (of_int L * of_nat D))"
proof -
  have L0: "0 \<le> L" using L by auto
  let ?p = "take (nat L) d_row"
  let ?t = "map2 (\<lambda>row k. s2s_trg_row (length row) k) ?p (take (nat L) g)"
  have e: "loss_ce_example d_row g L = binary_cross_entropy_with_logits (concat ?p) (concat ?t)"
    by (simp add: loss_ce_example_def s2s_pred_of_def text_input_of_def s2s_trg_of_def
        py_slice_prefix [OF L0])
  have wp: "\<forall>row \<in> set ?p. length row = D" using w by (meson in_set_takeD)
  have lp: "length (concat ?p) = nat L * D"
    using length_concat_const [OF wp] dl by simp
  have wt: "\<forall>row \<in> set ?t. length row = D"
  proof
    fix trg assume "trg \<in> set ?t"
    then obtain row k where rk: "(row, k) \<in> set (zip ?p (take (nat L) g))"
      and trg: "trg = s2s_trg_row (length row) k" by auto
    from rk have "row \<in> set ?p" by (rule set_zip_leftD)
    then show "length trg = D" using wp trg by (simp add: length_s2s_trg_row)
  qed
  have "length ?t = nat L" using dl gl by simp
  then have lt: "length (concat ?t) = nat L * D"
    using length_concat_const [OF wt] by simp
  have lz: "length (map2 bce_term (concat ?p) (concat ?t)) = nat L * D" using lp lt by simp
  have pos: "0 < nat L * D" using L D by simp
  have ne: "map2 bce_term (concat ?p) (concat ?t) \<noteq> []"
  proof
    assume "map2 bce_term (concat ?p) (concat ?t) = []"
    then have "length (map2 bce_term (concat ?p) (concat ?t)) = 0" by (simp only: list.size)
    with lz pos show False by simp
  qed
  have "real (nat L * D) = of_int L * of_nat D" using L by simp
  then show ?thesis
    unfolding e binary_cross_entropy_with_logits_def mean_Some [OF ne] lz by simp
qed

lemma losses_masked:
  assumes "0 \<le> L"
  shows "loss_dur_example d_row g L = loss_dur_example (take (nat L) d_row) (take (nat L) g) L"
    and "loss_ce_example d_row g L = loss_ce_example (take (nat L) d_row) (take (nat L) g) L"
  using assms
  by (simp_all add: loss_dur_example_def loss_ce_example_def s2s_pred_of_def text_input_of_def
      py_slice_prefix)

lemma fold_nan_add:
  "map (\<lambda>(d_row, g, L). f d_row g L) zs = map Some vs \<Longrightarrow>
   fold (\<lambda>(d_row, g, L) acc. nan_add acc (f d_row g L)) zs (Some a) = Some (a + sum_list vs)"
proof (induction zs arbitrary: a vs)
  case Nil
  then show ?case by simp
next
  case (Cons z zs)
  then obtain v vs' where vs: "vs = v # vs'" by (cases vs) auto
  obtain d_row g L where z: "z = (d_row, g, L)" by (cases z) auto
  from Cons.prems vs z have h: "f d_row g L = Some v"
    and t: "map (\<lambda>(d_row, g, L). f d_row g L) zs = map Some vs'" by auto
  show ?case using Cons.IH [OF t, of "a + v"] by (simp add: z vs h nan_add_def add.assoc)
qed

lemma sigmoid_0: "sigmoid 0 = 1 / 2"
  by (simp add: sigmoid_def)

lemma bce_term_0: "bce_term 0 z = ln 2"
  by (simp add: bce_term_def)

section \<open>The sampler: claim C1\<close>




section \<open>The validation reduction: claim C5\<close>

text \<open>
  Claim C5, as amended. On every worker the three reduced sums are the mean over the
  workers of the per-worker sums, so they are the same on all of them. The reported
  value divides the reduced sum by the reporting worker's own batch count (at least
  1): two workers with the same count report the same value, and when every worker
  has the same count, and that count is not zero, the reported value is the average
  of the per-worker averages.
\<close>

theorem validation_reduction:
  "eval_mel_loss workers me
     = sum_list (map loss_test workers) / of_nat (length workers) / of_nat (max (iters_test me) 1)
   \<and> eval_dur_loss workers me
     = sum_list (map loss_align workers) / of_nat (length workers) / of_nat (max (iters_test me) 1)
   \<and> eval_F0_loss workers me
     = sum_list (map loss_f workers) / of_nat (length workers) / of_nat (max (iters_test me) 1)
   \<and> (iters_test me = iters_test you \<longrightarrow>
        eval_mel_loss workers me = eval_mel_loss workers you
      \<and> eval_dur_loss workers me = eval_dur_loss workers you
      \<and> eval_F0_loss workers me = eval_F0_loss workers you)
   \<and> ((\<forall>a \<in> set workers. iters_test a = iters_test me) \<and> 0 < iters_test me \<longrightarrow>
        eval_mel_loss workers me = average_of_averages loss_test workers
      \<and> eval_dur_loss workers me = average_of_averages loss_align workers
      \<and> eval_F0_loss workers me = average_of_averages loss_f workers)"
proof -
  have eq: "eval_mel_loss workers me = average_of_averages loss_test workers
      \<and> eval_dur_loss workers me = average_of_averages loss_align workers
      \<and> eval_F0_loss workers me = average_of_averages loss_f workers"
    if same: "\<forall>a \<in> set workers. iters_test a = iters_test me" and pos: "0 < iters_test me"
  proof -
    have mx: "max (iters_test me) 1 = iters_test me" using pos by simp
    show ?thesis
      unfolding average_of_averages_equal_counts [OF same] eval_mel_loss_def eval_dur_loss_def
        eval_F0_loss_def mesh_reduce_def reduce_fn_def mx
      by simp
  qed
  show ?thesis
    using eq
    by (simp add: eval_mel_loss_def eval_dur_loss_def eval_F0_loss_def mesh_reduce_def reduce_fn_def)
qed

text \<open>Witness for C5: two workers with two batches each.\<close>

theorem validation_reduction_witness:
  "eval_mel_loss [\<lparr>loss_test = 2, loss_align = 4, loss_f = 6, iters_test = 2\<rparr>,
                  \<lparr>loss_test = 6, loss_align = 8, loss_f = 10, iters_test = 2\<rparr>]
                 \<lparr>loss_test = 2, loss_align = 4, loss_f = 6, iters_test = 2\<rparr> = 2
   \<and> average_of_averages loss_test
        [\<lparr>loss_test = 2, loss_align = 4, loss_f = 6, iters_test = 2\<rparr>,
         \<lparr>loss_test = 6, loss_align = 8, loss_f = 10, iters_test = 2\<rparr>] = 2"
  using validation_reduction [of
      "[\<lparr>loss_test = 2, loss_align = 4, loss_f = 6, iters_test = 2\<rparr>,
        \<lparr>loss_test = 6, loss_align = 8, loss_f = 10, iters_test = 2\<rparr>]"
      "\<lparr>loss_test = 2, loss_align = 4, loss_f = 6, iters_test = 2\<rparr>"
      "\<lparr>loss_test = 2, loss_align = 4, loss_f = 6, iters_test = 2\<rparr>"]
  by simp

text \<open>
  Counterexample for C5 as stated: the master went through one batch with sum 2,
  the other worker through three with sum 6. The master reports \<open>(2 + 6) / 2 / 1 = 4\<close>;
  the average of the per-worker averages is \<open>(2 / 1 + 6 / 3) / 2 = 2\<close>.
\<close>

theorem reported_is_not_average_of_averages:
  "eval_mel_loss [\<lparr>loss_test = 2, loss_align = 0, loss_f = 0, iters_test = 1\<rparr>,
                  \<lparr>loss_test = 6, loss_align = 0, loss_f = 0, iters_test = 3\<rparr>]
                 \<lparr>loss_test = 2, loss_align = 0, loss_f = 0, iters_test = 1\<rparr> = 4
   \<and> average_of_averages loss_test
        [\<lparr>loss_test = 2, loss_align = 0, loss_f = 0, iters_test = 1\<rparr>,
         \<lparr>loss_test = 6, loss_align = 0, loss_f = 0, iters_test = 3\<rparr>] = 2"
  by (simp add: eval_mel_loss_def mesh_reduce_def reduce_fn_def average_of_averages_def)

section \<open>The duration and alignment losses: claim C6\<close>

lemma example_loss_dur:
  "map (\<lambda>(d_row, g, L). loss_dur_example d_row g L)
             (zip [[[0, 0], [0, 0], [0, 0]]] (zip [[0, 4, 0]] [3])) = map Some [3] \<and> 0 < (1::nat)"
proof -
  have n3: "nat 3 = Suc (Suc (Suc 0))" by simp
  have s: "s2s_pred_of [[0, 0], [0, 0], [0, 0]] 3 = [[0, 0], [0, 0], [0, 0]]"
    by (simp add: s2s_pred_of_def py_slice_def py_bound_def n3)
  have t: "text_input_of [0, 4, 0] 3 = [0, 4, 0]"
    by (simp add: text_input_of_def py_slice_def py_bound_def n3)
  have dp: "dur_pred_of [[0, 0], [0, 0], [0, 0]] = [1, 1, 1]"
    by (simp add: dur_pred_of_def sigmoid_0)
  have i1: "py_slice [1, 1, 1 :: real] 1 (3 - 1) = [1]"
    by (simp add: py_slice_def py_bound_def)
  have i2: "py_slice [0, 4, 0 :: nat] 1 (3 - 1) = [4]"
    by (simp add: py_slice_def py_bound_def)
  have "loss_dur_example [[0, 0], [0, 0], [0, 0]] [0, 4, 0] 3 = Some 3"
    unfolding loss_dur_example_def s t dp i1 i2 by (simp add: l1_loss_def mean_def)
  then show ?thesis by simp
qed

text \<open>
  Claim C6, as amended. For an example with at least three valid tokens, whose logit
  rows all have the width \<open>D\<close>: the L1 duration loss is the mean of the absolute
  differences over the tokens 1 to \<open>L - 2\<close> (the first and the last valid token are left
  out), so its divisor is \<open>L - 2\<close>; the alignment loss is the mean of the binary
  cross-entropy terms over the \<open>L * D\<close> logits of the first \<open>L\<close> rows; neither depends on
  what lies beyond the valid length; and the batch value is the sum of the
  per-example values divided by the number of examples.
\<close>

theorem duration_losses:
  assumes L: "3 \<le> L" and dl: "nat L \<le> length d_row" and gl: "nat L \<le> length g"
    and w: "\<forall>row \<in> set d_row. length row = D" and D: "0 < D"
  shows "loss_dur_example d_row g L
           = Some (sum_list (map2 (\<lambda>x y. \<bar>x - y\<bar>)
                      (take (nat L - 2) (drop 1 (dur_pred_of d_row)))
                      (map of_nat (take (nat L - 2) (drop 1 g))))
                   / of_int (L - 2))
       \<and> loss_ce_example d_row g L
           = Some (sum_list (map2 bce_term
                      (concat (take (nat L) d_row))
                      (concat (map2 (\<lambda>row k. s2s_trg_row (length row) k)
                                 (take (nat L) d_row) (take (nat L) g))))
                   / (of_int L * of_nat D))
       \<and> loss_dur_example d_row g L = loss_dur_example (take (nat L) d_row) (take (nat L) g) L
       \<and> loss_ce_example d_row g L = loss_ce_example (take (nat L) d_row) (take (nat L) g) L
       \<and> (map (\<lambda>(d_row, g, L). loss_dur_example d_row g L) (zip d (zip d_gt lens)) = map Some vs
            \<and> 0 < n \<longrightarrow> loss_dur d d_gt lens n = Some (sum_list vs / of_nat n))
       \<and> (map (\<lambda>(d_row, g, L). loss_ce_example d_row g L) (zip d (zip d_gt lens)) = map Some vs
            \<and> 0 < n \<longrightarrow> loss_ce d d_gt lens n = Some (sum_list vs / of_nat n))"
proof -
  have L1: "1 \<le> L" and L0: "0 \<le> L" using L by auto
  have batch_dur: "loss_dur d d_gt lens n = Some (sum_list vs / of_nat n)"
    if "map (\<lambda>(d_row, g, L). loss_dur_example d_row g L) (zip d (zip d_gt lens)) = map Some vs"
      and "0 < n"
    using fold_nan_add [of loss_dur_example, OF that(1), of 0] that(2)
    by (simp add: loss_dur_def nan_div_def)
  have batch_ce: "loss_ce d d_gt lens n = Some (sum_list vs / of_nat n)"
    if "map (\<lambda>(d_row, g, L). loss_ce_example d_row g L) (zip d (zip d_gt lens)) = map Some vs"
      and "0 < n"
    using fold_nan_add [of loss_ce_example, OF that(1), of 0] that(2)
    by (simp add: loss_ce_def nan_div_def)
  show ?thesis
    using loss_dur_example_eq [OF L dl gl] loss_ce_example_eq [OF L1 dl gl w D]
      losses_masked [OF L0, of d_row g] batch_dur batch_ce
    by blast
qed

text \<open>
  Witness for C6: three tokens, two logits each, all zero, so every predicted duration
  is 1; the hard path gives the middle token four frames.
\<close>

theorem duration_losses_witness:
  "loss_dur_example [[0, 0], [0, 0], [0, 0]] [0, 4, 0] 3 = Some 3
   \<and> loss_ce_example [[0, 0], [0, 0], [0, 0]] [0, 4, 0] 3 = Some (ln 2)
   \<and> loss_dur [[[0, 0], [0, 0], [0, 0]]] [[0, 4, 0]] [3] 1 = Some 3"
proof -
  note a = example_loss_dur
  have n3: "nat 3 = Suc (Suc (Suc 0))" by simp
  show ?thesis
    using duration_losses [of 3 "[[0, 0], [0, 0], [0, 0]]" "[0, 4, 0]" 2
        "[[[0, 0], [0, 0], [0, 0]]]" "[[0, 4, 0]]" "[3]" "[3]" 1] a
    by (simp add: n3 dur_pred_of_def sigmoid_0 s2s_trg_row_def bce_term_0)
qed

text \<open>
  Counterexample for C6 as stated: on the same example the program's L1 loss is
  \<open>\<bar>1 - 4\<bar> / 1 = 3\<close>, while the loss over the three valid tokens divided by the valid
  length is \<open>(1 + 3 + 1) / 3\<close>.
\<close>

theorem loss_dur_not_divided_by_valid_length:
  "loss_dur_example [[0, 0], [0, 0], [0, 0]] [0, 4, 0] 3 = Some 3
   \<and> spec_loss_dur_example [[0, 0], [0, 0], [0, 0]] [0, 4, 0] 3 = Some (5 / 3)"
proof -
  have n3: "nat 3 = Suc (Suc (Suc 0))" by simp
  show ?thesis
    by (simp add: loss_dur_example_def spec_loss_dur_example_def l1_loss_def mean_def
        dur_pred_of_def s2s_pred_of_def text_input_of_def py_slice_def py_bound_def sigmoid_0 n3)
qed

section \<open>The training step: claims C4, C3 and C2\<close>

lemma then_do_lift: "then_do (lift r) f = (case r of Inl e \<Rightarrow> ([], Inl e) | Inr a \<Rightarrow> f a)"
  by (simp add: then_do_def lift_def split: prod.splits sum.splits)

lemma then_do_Inl: "snd m = Inl e \<Longrightarrow> then_do m f = (fst m, Inl e)"
  by (cases m) (simp add: then_do_def)

lemma then_do_Inr: "snd m = Inr a \<Longrightarrow> then_do m f = (fst m @ fst (f a), snd (f a))"
  by (cases m) (simp add: then_do_def split: prod.splits)

lemma then_do_assoc: "then_do (then_do m f) g = then_do m (\<lambda>a. then_do (f a) g)"
  by (cases m) (auto simp: then_do_def split: prod.splits sum.splits)

lemma then_do_pair: "then_do (t, Inr a) f = (t @ fst (f a), snd (f a))"
  by (simp add: then_do_def split: prod.splits)

lemma then_do_pair_Inl: "then_do (t, Inl e) f = (t, Inl e)"
  by (simp add: then_do_def)

lemma log_step_no_training: "filter training_event (fst (log_step p i n)) = []"
  by (simp add: log_step_def then_do_lift emit_def split: sum.splits)

lemma checkpoint_no_training: "filter training_event (fst (interim_checkpoint p n)) = []"
  by (simp add: interim_checkpoint_def emit_def)

lemma checkpoint_result: "snd (interim_checkpoint p n) = Inr ()"
  by (simp add: interim_checkpoint_def emit_def)

lemma commit_step_no_training: "filter training_event (fst (commit_step p i n)) = []"
proof (cases "snd (log_step p i (n + 1))")
  case (Inl e)
  then show ?thesis by (simp add: commit_step_def then_do_Inl log_step_no_training)
next
  case (Inr u)
  then show ?thesis
    by (simp add: commit_step_def then_do_Inr [OF Inr] then_do_Inr [OF checkpoint_result]
        log_step_no_training checkpoint_no_training)
qed

lemma commit_step_result: "snd (commit_step p i n) = Inr n' \<Longrightarrow> n' = n + 1"
proof (cases "snd (log_step p i (n + 1))")
  case (Inl e)
  then show "snd (commit_step p i n) = Inr n' \<Longrightarrow> ?thesis"
    by (simp add: commit_step_def then_do_Inl)
next
  case (Inr u)
  then show "snd (commit_step p i n) = Inr n' \<Longrightarrow> ?thesis"
    by (simp add: commit_step_def then_do_Inr [OF Inr] then_do_Inr [OF checkpoint_result])
qed

lemma optimizer_is_training: "optimizer_event e \<Longrightarrow> training_event e"
  by (cases e) simp_all

lemma asr_is_training: "asr_event e \<Longrightarrow> training_event e"
  by (cases e) simp_all

lemma filter_none_weaker:
  assumes "filter P xs = []" and "\<And>e. Q e \<Longrightarrow> P e"
  shows "filter Q xs = []"
  using assms by (induction xs) (auto split: if_splits)

lemmas commit_step_no_optimizer =
  filter_none_weaker [OF commit_step_no_training optimizer_is_training]

lemmas commit_step_no_asr =
  filter_none_weaker [OF commit_step_no_training asr_is_training]

lemma train_batch_stages:
  assumes "\<not> aligner_raises b"
  shows "train_batch p i b it =
    (case mel_len_train (mel_input_length b) (max_len p) of
       Inl e \<Rightarrow> (forward_events b, Inl e)
     | Inr ml \<Rightarrow>
    (case sample_batch (mel_input_length b) ml of
       Inl e \<Rightarrow> (forward_events b, Inl e)
     | Inr draws \<Rightarrow>
    (case view (F0_real_shape b) (batch_size p) of
       Inl e \<Rightarrow> (forward_events b @ decode_events, Inl e)
     | Inr s \<Rightarrow>
    (case smooth_l1_loss s (F0_fake_shape b) of
       Inl e \<Rightarrow> (forward_events b @ decode_events, Inl e)
     | Inr u \<Rightarrow>
    (if g_loss_isnan b then
       (forward_events b @ decode_events
          @ [ZeroGrad, Backward ''d_loss'', OptStep ''msd'', OptStep ''mpd'', MarkStep,
             ZeroGrad, Backward ''g_loss''],
        Inl (RuntimeError ''NaN loss detected''))
     else
       (forward_events b @ decode_events
          @ [ZeroGrad, Backward ''d_loss'', OptStep ''msd'', OptStep ''mpd'', MarkStep,
             ZeroGrad, Backward ''g_loss'',
             OptStep ''predictor'', OptStep ''style_encoder'', OptStep ''decoder'',
             OptStep ''text_encoder'', OptStep ''text_aligner'', MarkStep]
          @ fst (commit_step p i it),
        snd (commit_step p i it)))))))"
  using assms
  by (simp add: train_batch_def discriminator_update_def generator_update_def emit_def lift_def
      then_do_pair then_do_pair_Inl split: sum.splits)

lemma forward_no_optimizer: "filter optimizer_event (forward_events b) = []"
  by (simp add: forward_events_def)

lemma decode_no_optimizer: "filter optimizer_event decode_events = []"
  by (simp add: decode_events_def)

lemma train_batch_optimizer_trace:
  assumes "\<not> aligner_raises b"
  shows "(filter optimizer_event (fst (train_batch p i b it)) = []
            \<and> (\<exists>e. snd (train_batch p i b it) = Inl e))
       \<or> (filter optimizer_event (fst (train_batch p i b it))
            = [ZeroGrad, Backward ''d_loss'', OptStep ''msd'', OptStep ''mpd'', MarkStep,
               ZeroGrad, Backward ''g_loss'']
            \<and> (\<exists>e. snd (train_batch p i b it) = Inl e))
       \<or> filter optimizer_event (fst (train_batch p i b it))
            = [ZeroGrad, Backward ''d_loss'', OptStep ''msd'', OptStep ''mpd'', MarkStep,
               ZeroGrad, Backward ''g_loss'',
               OptStep ''predictor'', OptStep ''style_encoder'', OptStep ''decoder'',
               OptStep ''text_encoder'', OptStep ''text_aligner'', MarkStep]"
proof -
  note st = train_batch_stages [OF assms, of p i it]
  show ?thesis
  proof (cases "mel_len_train (mel_input_length b) (max_len p)")
    case (Inl e)
    then show ?thesis by (simp add: st forward_no_optimizer)
  next
    case ml: (Inr ml)
    show ?thesis
    proof (cases "sample_batch (mel_input_length b) ml")
      case (Inl e)
      then show ?thesis by (simp add: st ml forward_no_optimizer)
    next
      case dr: (Inr draws)
      show ?thesis
      proof (cases "view (F0_real_shape b) (batch_size p)")
        case (Inl e)
        then show ?thesis by (simp add: st ml dr forward_no_optimizer decode_no_optimizer)
      next
        case vw: (Inr s)
        show ?thesis
        proof (cases "smooth_l1_loss s (F0_fake_shape b)")
          case (Inl e)
          then show ?thesis by (simp add: st ml dr vw forward_no_optimizer decode_no_optimizer)
        next
          case sl: (Inr u)
          show ?thesis
            by (cases "g_loss_isnan b")
              (simp_all add: st ml dr vw sl forward_no_optimizer decode_no_optimizer
                commit_step_no_optimizer)
        qed
      qed
    qed
  qed
qed

text \<open>
  Claim C4, as amended. In a training step whose aligner call returns and that runs
  to its end (nothing raises after the aligner), the optimizer calls are exactly, in
  this order: \<^verbatim>\<open>zero_grad\<close>, backward of the discriminator loss, \<^verbatim>\<open>step\<close> for
  \<^verbatim>\<open>msd\<close> and \<^verbatim>\<open>mpd\<close>, \<^verbatim>\<open>mark_step\<close>; then \<^verbatim>\<open>zero_grad\<close>, backward of the
  generator loss, \<^verbatim>\<open>step\<close> for \<^verbatim>\<open>predictor\<close>, \<^verbatim>\<open>style_encoder\<close>, \<^verbatim>\<open>decoder\<close>,
  \<^verbatim>\<open>text_encoder\<close>, \<^verbatim>\<open>text_aligner\<close>, \<^verbatim>\<open>mark_step\<close>. A step whose aligner call
  returns and that raises on the way has made only a prefix of this sequence.
\<close>

theorem two_phase_update:
  assumes "\<not> aligner_raises b"
  shows "prefix (filter optimizer_event (fst (train_batch p i b it)))
           [ZeroGrad, Backward ''d_loss'', OptStep ''msd'', OptStep ''mpd'', MarkStep,
            ZeroGrad, Backward ''g_loss'',
            OptStep ''predictor'', OptStep ''style_encoder'', OptStep ''decoder'',
            OptStep ''text_encoder'', OptStep ''text_aligner'', MarkStep]
       \<and> (\<forall>n. snd (train_batch p i b it) = Inr n \<longrightarrow>
            filter optimizer_event (fst (train_batch p i b it))
              = [ZeroGrad, Backward ''d_loss'', OptStep ''msd'', OptStep ''mpd'', MarkStep,
                 ZeroGrad, Backward ''g_loss'',
                 OptStep ''predictor'', OptStep ''style_encoder'', OptStep ''decoder'',
                 OptStep ''text_encoder'', OptStep ''text_aligner'', MarkStep])"
  using train_batch_optimizer_trace [OF assms, of p i it]
  by (elim disjE conjE exE) simp_all

lemma train_batch_skip:
  "aligner_raises b \<Longrightarrow> train_batch p i b it = ([Forward ''text_aligner'', MarkStep], Inr it)"
  by (simp add: train_batch_def)

lemma train_batch_counts:
  "snd (train_batch p i b it) = Inr n \<Longrightarrow> n = (if aligner_raises b then it else it + 1)"
proof (cases "aligner_raises b")
  case True
  then show "snd (train_batch p i b it) = Inr n \<Longrightarrow> ?thesis" by (simp add: train_batch_skip)
next
  case False
  show "snd (train_batch p i b it) = Inr n \<Longrightarrow> ?thesis"
    unfolding train_batch_stages [OF False]
    using False by (auto split: sum.splits if_splits dest: commit_step_result)
qed

lemma train_batches_counts:
  "snd (train_batches p i bs it) = Inr n \<Longrightarrow>
   n = it + int (length (filter (\<lambda>b. \<not> aligner_raises b) bs))"
proof (induction bs arbitrary: i it)
  case Nil
  then show ?case by simp
next
  case (Cons b bs)
  show ?case
  proof (cases "snd (train_batch p i b it)")
    case (Inl e)
    with Cons.prems show ?thesis by (simp add: then_do_Inl)
  next
    case (Inr m)
    with Cons.prems have "snd (train_batches p (i + 1) bs m) = Inr n"
      by (simp add: then_do_Inr [OF Inr])
    from Cons.IH [OF this] train_batch_counts [OF Inr] show ?thesis by simp
  qed
qed

text \<open>
  Claim C3. When the aligner's forward raises, the batch does nothing but commit the
  graph (\<^verbatim>\<open>mark_step\<close>): no backward, no optimizer step, \<^verbatim>\<open>iters\<close> unchanged, and the
  loop goes on with the next batch. A batch that is not skipped and runs to its end
  adds exactly 1 to \<^verbatim>\<open>iters\<close>, so a batch loop that ends has added the number of its
  batches that were not skipped.
\<close>

theorem aligner_failure_skips_batch:
  "(aligner_raises b \<longrightarrow>
      train_batch p i b it = ([Forward ''text_aligner'', MarkStep], Inr it)
    \<and> train_batches p i (b # bs) it
        = (Forward ''text_aligner'' # MarkStep # fst (train_batches p (i + 1) bs it),
           snd (train_batches p (i + 1) bs it)))
   \<and> (\<forall>n. \<not> aligner_raises b \<and> snd (train_batch p i b it) = Inr n \<longrightarrow> n = it + 1)
   \<and> (\<forall>n. snd (train_batches p i bs it) = Inr n \<longrightarrow>
         n = it + int (length (filter (\<lambda>b. \<not> aligner_raises b) bs)))"
proof -
  have a: "train_batches p i (b # bs) it
        = (Forward ''text_aligner'' # MarkStep # fst (train_batches p (i + 1) bs it),
           snd (train_batches p (i + 1) bs it))" if "aligner_raises b"
    using that by (simp add: train_batch_skip then_do_pair)
  show ?thesis
    using a train_batch_skip [of b p i it] train_batch_counts [of p i b it]
      train_batches_counts [of p i bs it]
    by auto
qed

lemma train_batches_append:
  "train_batches p i (xs @ ys) it
     = then_do (train_batches p i xs it) (\<lambda>it'. train_batches p (i + int (length xs)) ys it')"
proof (induction xs arbitrary: i it)
  case Nil
  show ?case by (simp add: then_do_pair)
next
  case (Cons x xs)
  have e: "i + 1 + int (length xs) = i + int (length (x # xs))" by simp
  have "(\<lambda>a. train_batches p (i + 1) (xs @ ys) a)
      = (\<lambda>a. then_do (train_batches p (i + 1) xs a)
               (\<lambda>it'. train_batches p (i + int (length (x # xs))) ys it'))"
    by (rule ext) (simp only: Cons.IH e)
  then show ?case by (simp add: then_do_assoc)
qed

lemma run_epochs_append:
  "run_epochs p ld (xs @ ys) it
     = then_do (run_epochs p ld xs it) (\<lambda>it'. run_epochs p ld ys it')"
proof (induction xs arbitrary: it)
  case Nil
  show ?case by (simp add: then_do_pair)
next
  case (Cons x xs)
  have "(\<lambda>a. run_epochs p ld (xs @ ys) a)
      = (\<lambda>a. then_do (run_epochs p ld xs a) (\<lambda>it'. run_epochs p ld ys it'))"
    by (rule ext) (simp only: Cons.IH)
  then show ?case by (simp add: then_do_assoc)
qed

lemma failing_batch_ends_run:
  assumes fail: "train_batch p (int (length before)) b it = (t, Inl e)"
    and before: "train_batches p 0 before it0 = (t1, Inr it)"
    and loader: "train_loader ld epoch = before @ b # after"
    and earlier: "run_epochs p ld earlier it00 = (t0, Inr it0)"
  shows "run_epochs p ld (earlier @ epoch # rest) it00 = (t0 @ t1 @ t, Inl e)"
proof -
  have "train_batches p 0 (before @ b # after) it0 = (t1 @ t, Inl e)"
    by (simp add: train_batches_append before then_do_pair fail then_do_pair_Inl)
  then have "run_epoch p ld epoch it0 = (t1 @ t, Inl e)"
    by (simp add: run_epoch_def loader then_do_pair_Inl)
  then show ?thesis
    by (simp add: run_epochs_append earlier then_do_pair then_do_pair_Inl)
qed

lemma failing_run_ends_process:
  assumes start: "startup w config = (ts, Inr (p, start_epoch, it00))"
    and run: "run_epochs p (batches w) [start_epoch..epochs p - 1] it00 = (t, Inl e)"
  shows "mp_fn w config = (ts @ t, Inl e)"
  by (simp add: mp_fn_def start then_do_pair run then_do_pair_Inl)

text \<open>
  Claim C2. In a training step that reaches the generator phase, if the generator
  loss is NaN the step raises \<^verbatim>\<open>RuntimeError\<close> after the backward pass and before the
  first of the five generator-side optimizer steps; the only steps made are those of
  the two discriminators. Nothing catches the exception: the batch loop, the epoch
  loop and \<^verbatim>\<open>_mp_fn\<close> end with it, whatever batches and epochs would follow.
\<close>

theorem nan_loss_aborts:
  assumes reach: "\<not> aligner_raises b"
      "mel_len_train (mel_input_length b) (max_len p) = Inr ml"
      "sample_batch (mel_input_length b) ml = Inr draws"
      "view (F0_real_shape b) (batch_size p) = Inr s"
      "smooth_l1_loss s (F0_fake_shape b) = Inr u"
    and nan: "g_loss_isnan b"
  shows "train_batch p i b it
           = (forward_events b @ decode_events
                @ [ZeroGrad, Backward ''d_loss'', OptStep ''msd'', OptStep ''mpd'', MarkStep,
                   ZeroGrad, Backward ''g_loss''],
              Inl (RuntimeError ''NaN loss detected''))
       \<and> filter optimizer_event (fst (train_batch p i b it))
           = [ZeroGrad, Backward ''d_loss'', OptStep ''msd'', OptStep ''mpd'', MarkStep,
              ZeroGrad, Backward ''g_loss'']
       \<and> (i = int (length before)
            \<and> train_batches p 0 before it0 = (t1, Inr it)
            \<and> train_loader ld epoch = before @ b # after
            \<and> run_epochs p ld earlier it00 = (t0, Inr it0)
          \<longrightarrow> run_epochs p ld (earlier @ epoch # rest) it00
                = (t0 @ t1 @ fst (train_batch p i b it), Inl (RuntimeError ''NaN loss detected''))
              \<and> (startup w config = (ts, Inr (p, start_epoch, it00))
                   \<and> batches w = ld
                   \<and> [start_epoch..epochs p - 1] = earlier @ epoch # rest
                 \<longrightarrow> mp_fn w config
                       = (ts @ t0 @ t1 @ fst (train_batch p i b it),
                          Inl (RuntimeError ''NaN loss detected''))
                     \<and> exit_status (snd (mp_fn w config)) = 1))"
proof -
  let ?t = "forward_events b @ decode_events
                @ [ZeroGrad, Backward ''d_loss'', OptStep ''msd'', OptStep ''mpd'', MarkStep,
                   ZeroGrad, Backward ''g_loss'']"
  let ?e = "RuntimeError ''NaN loss detected''"
  have step: "train_batch p j b it = (?t, Inl ?e)" for j
    unfolding train_batch_stages [OF reach(1)] using reach nan by simp
  have opt: "filter optimizer_event (fst (train_batch p i b it))
           = [ZeroGrad, Backward ''d_loss'', OptStep ''msd'', OptStep ''mpd'', MarkStep,
              ZeroGrad, Backward ''g_loss'']"
    by (simp add: step forward_no_optimizer decode_no_optimizer)
  have run: "run_epochs p ld (earlier @ epoch # rest) it00 = (t0 @ t1 @ ?t, Inl ?e)"
    if "i = int (length before)" "train_batches p 0 before it0 = (t1, Inr it)"
      "train_loader ld epoch = before @ b # after" "run_epochs p ld earlier it00 = (t0, Inr it0)"
    using failing_batch_ends_run [OF _ that(2) that(3) that(4)] step that(1) by simp
  have proc: "mp_fn w config = (ts @ t0 @ t1 @ ?t, Inl ?e)
      \<and> exit_status (snd (mp_fn w config)) = 1"
    if "i = int (length before)" "train_batches p 0 before it0 = (t1, Inr it)"
      "train_loader ld epoch = before @ b # after" "run_epochs p ld earlier it00 = (t0, Inr it0)"
      "startup w config = (ts, Inr (p, start_epoch, it00))" "batches w = ld"
      "[start_epoch..epochs p - 1] = earlier @ epoch # rest"
    using failing_run_ends_process [OF that(5), of "t0 @ t1 @ ?t" ?e]
      run [OF that(1) that(2) that(3) that(4)] that(6) that(7) by simp
  show ?thesis
  proof (intro conjI impI, goal_cases)
    case 1
    show ?case by (rule step)
  next
    case 2
    show ?case by (rule opt)
  next
    case 3
    then show ?case using run by (simp add: step)
  next
    case 4
    then show ?case using proc by (simp add: step)
  next
    case 5
    then show ?case using proc by (simp add: step)
  qed
qed

lemmas step_eval =
  mel_len_train_def mel_len_val_def mel_length_def random_start_def randint_def py_int_numeral
  view_def smooth_l1_loss_def broadcastable_def commit_step_def log_step_def py_mod_def
  interim_checkpoint_def then_do_pair then_do_pair_Inl emit_def lift_def
  forward_events_def decode_events_def

lemma example_batch_completes:
  "train_batch example_params 0 example_batch 0
     = ([Forward ''text_aligner'', MaximumPath, Forward ''text_encoder'', GetRandBits, Asr Soft,
         Forward ''style_encoder'', Forward ''predictor'',
         Forward ''style_encoder'', Forward ''pitch_extractor'',
         Forward ''predictor.F0Ntrain'', Forward ''decoder'',
         ZeroGrad, Backward ''d_loss'', OptStep ''msd'', OptStep ''mpd'', MarkStep,
         ZeroGrad, Backward ''g_loss'',
         OptStep ''predictor'', OptStep ''style_encoder'', OptStep ''decoder'',
         OptStep ''text_encoder'', OptStep ''text_aligner'', MarkStep],
        Inr 1)"
proof -
  have a: "\<not> aligner_raises example_batch" by (simp add: example_batch_def)
  show ?thesis
    unfolding train_batch_stages [OF a]
    by (simp add: example_batch_def example_params_def step_eval)
qed

text \<open>Witness for C4: a batch of two examples that runs to its end.\<close>

theorem two_phase_update_witness:
  "\<not> aligner_raises example_batch
   \<and> snd (train_batch example_params 0 example_batch 0) = Inr 1
   \<and> filter optimizer_event (fst (train_batch example_params 0 example_batch 0))
       = [ZeroGrad, Backward ''d_loss'', OptStep ''msd'', OptStep ''mpd'', MarkStep,
          ZeroGrad, Backward ''g_loss'',
          OptStep ''predictor'', OptStep ''style_encoder'', OptStep ''decoder'',
          OptStep ''text_encoder'', OptStep ''text_aligner'', MarkStep]"
proof -
  have a: "\<not> aligner_raises example_batch" by (simp add: example_batch_def)
  have r: "snd (train_batch example_params 0 example_batch 0) = Inr 1"
    by (simp add: example_batch_completes)
  show ?thesis
    using two_phase_update [OF a, of example_params 0 0] a r by blast
qed

text \<open>
  Counterexample for C4 as stated: two steps whose aligner call returns and that do
  not make the two phases. When the generator loss is NaN, the step makes the
  discriminator phase, \<^verbatim>\<open>zero_grad\<close> and the backward of the generator loss, and
  raises at line 340: no \<^verbatim>\<open>step\<close> of a generator-side module, no second
  \<^verbatim>\<open>mark_step\<close>. When the reshape of line 284 raises (20 pitch values, batch size
  3), the step makes no optimizer call at all.
\<close>

theorem raising_step_is_not_two_phase:
  "\<not> aligner_raises (example_batch\<lparr>g_loss_isnan := True\<rparr>)
   \<and> train_batch example_params 0 (example_batch\<lparr>g_loss_isnan := True\<rparr>) 0
       = ([Forward ''text_aligner'', MaximumPath, Forward ''text_encoder'', GetRandBits, Asr Soft,
           Forward ''style_encoder'', Forward ''predictor'',
           Forward ''style_encoder'', Forward ''pitch_extractor'',
           Forward ''predictor.F0Ntrain'', Forward ''decoder'',
           ZeroGrad, Backward ''d_loss'', OptStep ''msd'', OptStep ''mpd'', MarkStep,
           ZeroGrad, Backward ''g_loss''],
          Inl (RuntimeError ''NaN loss detected''))
   \<and> filter optimizer_event
         (fst (train_batch example_params 0 (example_batch\<lparr>g_loss_isnan := True\<rparr>) 0))
       = [ZeroGrad, Backward ''d_loss'', OptStep ''msd'', OptStep ''mpd'', MarkStep,
          ZeroGrad, Backward ''g_loss'']
   \<and> \<not> aligner_raises example_batch
   \<and> filter optimizer_event
         (fst (train_batch (example_params\<lparr>batch_size := 3\<rparr>) 0 example_batch 0)) = []"
proof -
  have h1: "\<not> aligner_raises (example_batch\<lparr>g_loss_isnan := True\<rparr>)"
    by (simp add: example_batch_def)
  have h2: "\<not> aligner_raises example_batch" by (simp add: example_batch_def)
  have a: "train_batch example_params 0 (example_batch\<lparr>g_loss_isnan := True\<rparr>) 0
       = ([Forward ''text_aligner'', MaximumPath, Forward ''text_encoder'', GetRandBits, Asr Soft,
           Forward ''style_encoder'', Forward ''predictor'',
           Forward ''style_encoder'', Forward ''pitch_extractor'',
           Forward ''predictor.F0Ntrain'', Forward ''decoder'',
           ZeroGrad, Backward ''d_loss'', OptStep ''msd'', OptStep ''mpd'', MarkStep,
           ZeroGrad, Backward ''g_loss''],
          Inl (RuntimeError ''NaN loss detected''))"
    unfolding train_batch_stages [OF h1]
    by (simp add: example_batch_def example_params_def step_eval)
  have b: "train_batch (example_params\<lparr>batch_size := 3\<rparr>) 0 example_batch 0
       = ([Forward ''text_aligner'', MaximumPath, Forward ''text_encoder'', GetRandBits, Asr Soft,
           Forward ''style_encoder'', Forward ''predictor'',
           Forward ''style_encoder'', Forward ''pitch_extractor'',
           Forward ''predictor.F0Ntrain'', Forward ''decoder''],
          Inl (RuntimeError ''shape is invalid for input size''))"
    unfolding train_batch_stages [OF h2]
    by (simp add: example_batch_def example_params_def step_eval)
  show ?thesis using h1 h2 by (simp add: a b)
qed

text \<open>Witness for C3: a skipped batch followed by one that completes, from step 7.\<close>

theorem aligner_failure_skips_batch_witness:
  "aligner_raises (example_batch\<lparr>aligner_raises := True\<rparr>)
   \<and> train_batch example_params 0 (example_batch\<lparr>aligner_raises := True\<rparr>) 7
       = ([Forward ''text_aligner'', MarkStep], Inr 7)
   \<and> snd (train_batches example_params 0
            [example_batch\<lparr>aligner_raises := True\<rparr>, example_batch] 7) = Inr 8"
proof -
  have a: "aligner_raises (example_batch\<lparr>aligner_raises := True\<rparr>)" by simp
  have n: "\<not> aligner_raises example_batch" by (simp add: example_batch_def)
  have r: "snd (train_batch example_params 1 example_batch 7) = Inr 8"
    unfolding train_batch_stages [OF n]
    by (simp add: example_batch_def example_params_def step_eval)
  have r2: "snd (train_batches example_params 1 [example_batch] 7) = Inr 8"
    by (simp add: then_do_Inr [OF r])
  show ?thesis
    using aligner_failure_skips_batch [of "example_batch\<lparr>aligner_raises := True\<rparr>"
        example_params 0 7 "[example_batch]"] a r2
    by (simp add: then_do_pair)
qed

text \<open>
  Witness for C2: the example batch with a NaN generator loss, first in an epoch
  whose second batch, and whose second epoch, never run.
\<close>

theorem nan_loss_aborts_witness:
  "train_batch example_params 0 (example_batch\<lparr>g_loss_isnan := True\<rparr>) 0
     = ([Forward ''text_aligner'', MaximumPath, Forward ''text_encoder'', GetRandBits, Asr Soft,
         Forward ''style_encoder'', Forward ''predictor'',
         Forward ''style_encoder'', Forward ''pitch_extractor'',
         Forward ''predictor.F0Ntrain'', Forward ''decoder'',
         ZeroGrad, Backward ''d_loss'', OptStep ''msd'', OptStep ''mpd'', MarkStep,
         ZeroGrad, Backward ''g_loss''],
        Inl (RuntimeError ''NaN loss detected''))
   \<and> snd (run_epochs example_params
          \<lparr>train_loader = (\<lambda>epoch. [example_batch\<lparr>g_loss_isnan := True\<rparr>, example_batch]),
           val_loader = (\<lambda>epoch. [])\<rparr> [0, 1] 0)
       = Inl (RuntimeError ''NaN loss detected'')"
proof -
  let ?b = "example_batch\<lparr>g_loss_isnan := True\<rparr>"
  let ?ld = "\<lparr>train_loader = (\<lambda>epoch. [?b, example_batch]), val_loader = (\<lambda>epoch. [])\<rparr>"
  have h1: "\<not> aligner_raises ?b" by (simp add: example_batch_def)
  have h2: "mel_len_train (mel_input_length ?b) (max_len example_params) = Inr 5"
    by (simp add: example_batch_def example_params_def step_eval)
  have h3: "sample_batch (mel_input_length ?b) 5 = Inr [[(0, 1)], [(0, 1 / 5), (1, 1 / 5), (2, 1 / 5), (3, 1 / 5), (4, 1 / 5)]]"
    by (simp add: example_batch_def step_eval upto.simps)
  have h4: "view (F0_real_shape ?b) (batch_size example_params) = Inr [2, 10]"
    by (simp add: example_batch_def example_params_def step_eval)
  have h5: "smooth_l1_loss [2, 10] (F0_fake_shape ?b) = Inr ()"
    by (simp add: example_batch_def step_eval)
  have h6: "g_loss_isnan ?b" by simp
  have pre: "0 = int (length ([] :: batch_obs list))
      \<and> train_batches example_params 0 [] 0 = ([], Inr 0)
      \<and> train_loader ?ld 0 = [] @ ?b # [example_batch]
      \<and> run_epochs example_params ?ld [] 0 = ([], Inr 0)"
    by simp
  show ?thesis
    using nan_loss_aborts [OF h1 h2 h3 h4 h5 h6, where i = 0 and before = "[]" and ?it0.0 = 0
        and ?t1.0 = "[]" and it = 0 and ld = ?ld and epoch = 0 and after = "[example_batch]"
        and earlier = "[]" and ?it00.0 = 0 and ?t0.0 = "[]" and rest = "[1]"]
      pre
    by (simp add: forward_events_def decode_events_def example_batch_def)
qed

section \<open>The alignment choice: claim C9\<close>

lemma then_do_nil:
  "then_do ([], r) f = (case r of Inl e \<Rightarrow> ([], Inl e) | Inr a \<Rightarrow> f a)"
  by (simp add: then_do_def split: sum.splits prod.splits)

lemma val_try_asr:
  "filter asr_event (fst (val_try vb)) = (if aligner_raises vb then [] else [Asr Mono])"
  by (simp add: val_try_def emit_def lift_def then_do_pair then_do_pair_Inl then_do_nil
      split: sum.splits)

lemma val_batch_asr:
  "filter asr_event (fst (val_batch vb acc)) = (if aligner_raises vb then [] else [Asr Mono])"
proof (cases "val_try vb")
  case (Pair t r)
  then have "filter asr_event t = (if aligner_raises vb then [] else [Asr Mono])"
    using val_try_asr [of vb] by simp
  then show ?thesis by (cases r) (simp_all add: val_batch_def Pair)
qed

lemma forward_asr:
  "filter asr_event (forward_events b) = [GetRandBits, Asr (if randbit b then Soft else Mono)]"
  by (simp add: forward_events_def)

lemma decode_no_asr: "filter asr_event decode_events = []"
  by (simp add: decode_events_def)

lemma train_batch_trace_cases:
  assumes "\<not> aligner_raises b"
  shows "(\<exists>e. train_batch p i b it = (forward_events b, Inl e))
       \<or> (\<exists>e. train_batch p i b it = (forward_events b @ decode_events, Inl e))
       \<or> train_batch p i b it
            = (forward_events b @ decode_events
                 @ [ZeroGrad, Backward ''d_loss'', OptStep ''msd'', OptStep ''mpd'', MarkStep,
                    ZeroGrad, Backward ''g_loss''],
               Inl (RuntimeError ''NaN loss detected''))
       \<or> train_batch p i b it
            = (forward_events b @ decode_events
                 @ [ZeroGrad, Backward ''d_loss'', OptStep ''msd'', OptStep ''mpd'', MarkStep,
                    ZeroGrad, Backward ''g_loss'',
                    OptStep ''predictor'', OptStep ''style_encoder'', OptStep ''decoder'',
                    OptStep ''text_encoder'', OptStep ''text_aligner'', MarkStep]
                 @ fst (commit_step p i it),
               snd (commit_step p i it))"
proof -
  note st = train_batch_stages [OF assms, of p i it]
  show ?thesis
  proof (cases "mel_len_train (mel_input_length b) (max_len p)")
    case (Inl e)
    then show ?thesis by (simp add: st)
  next
    case ml: (Inr ml)
    show ?thesis
    proof (cases "sample_batch (mel_input_length b) ml")
      case (Inl e)
      then show ?thesis by (simp add: st ml)
    next
      case dr: (Inr draws)
      show ?thesis
      proof (cases "view (F0_real_shape b) (batch_size p)")
        case (Inl e)
        then show ?thesis by (simp add: st ml dr)
      next
        case vw: (Inr s)
        show ?thesis
        proof (cases "smooth_l1_loss s (F0_fake_shape b)")
          case (Inl e)
          then show ?thesis by (simp add: st ml dr vw)
        next
          case sl: (Inr u)
          show ?thesis by (cases "g_loss_isnan b") (simp_all add: st ml dr vw sl)
        qed
      qed
    qed
  qed
qed

text \<open>
  Claim C9. In a training step whose aligner call returns, one random bit is drawn,
  and the text-encoder output is multiplied by the soft attention when the bit is 1
  and by the hard path when it is 0, each with probability one half; a validation
  batch draws no bit and uses the hard path.
\<close>

theorem asr_choice:
  "train_asr_dist t_en s2s_attn s2s_attn_mono
     = [(matmul t_en s2s_attn_mono, 1 / 2), (matmul t_en s2s_attn, 1 / 2)]
   \<and> val_asr t_en s2s_attn_mono = matmul t_en s2s_attn_mono
   \<and> (\<not> aligner_raises b \<longrightarrow>
        filter asr_event (fst (train_batch p i b it))
          = [GetRandBits, Asr (if randbit b then Soft else Mono)])
   \<and> filter asr_event (fst (val_batch vb acc)) = (if aligner_raises vb then [] else [Asr Mono])"
proof -
  have tr: "filter asr_event (fst (train_batch p i b it))
          = [GetRandBits, Asr (if randbit b then Soft else Mono)]" if n: "\<not> aligner_raises b"
    using train_batch_trace_cases [OF n, of p i it]
    by (elim disjE exE) (simp_all add: forward_asr decode_no_asr commit_step_no_asr)
  show ?thesis
    using tr val_batch_asr [of vb acc]
    by (simp add: train_asr_dist_def getrandbits1_def train_asr_def py_bool_def val_asr_def)
qed

text \<open>
  Witness for C9: a one-row encoder output with two alignments, and the example batch
  in a training step and in a validation step.
\<close>

theorem asr_choice_witness:
  "train_asr_dist [[1, 2]] [[1, 0], [0, 1]] [[1, 1], [0, 0]] = [([[1, 1]], 1 / 2), ([[1, 2]], 1 / 2)]
   \<and> filter asr_event (fst (train_batch example_params 0 example_batch 0)) = [GetRandBits, Asr Soft]
   \<and> filter asr_event (fst (val_batch example_batch
        \<lparr>loss_test = 0, loss_align = 0, loss_f = 0, iters_test = 0\<rparr>)) = [Asr Mono]"
  using asr_choice [of "[[1, 2]]" "[[1, 0], [0, 1]]" "[[1, 1], [0, 0]]" example_batch
      example_params 0 0 example_batch "\<lparr>loss_test = 0, loss_align = 0, loss_f = 0, iters_test = 0\<rparr>"]
  by (simp add: matmul_def example_batch_def)

section \<open>The reshape of the pitch tensor: claim C10\<close>







section \<open>The start-up: claims C7 and C8\<close>

lemma then_do_no_events:
  assumes "filter P (fst m) = []" and "\<And>a. filter P (fst (f a)) = []"
  shows "filter P (fst (then_do m f)) = []"
proof (cases m)
  case (Pair t r)
  then show ?thesis using assms by (cases r) (simp_all add: then_do_pair then_do_pair_Inl)
qed

lemma then_do_result:
  "snd (then_do m f) = Inr v \<Longrightarrow> \<exists>a. snd m = Inr a \<and> snd (f a) = Inr v"
proof (cases m)
  case (Pair t r)
  then show "snd (then_do m f) = Inr v \<Longrightarrow> ?thesis"
    by (cases r) (simp_all add: then_do_def split: prod.splits)
qed

lemma lift_no_events: "filter P (fst (lift r)) = []"
  by (simp add: lift_def)

lemma log_setup_no_run: "filter run_event (fst (log_setup m v)) = []"
  by (cases v) (simp_all add: log_setup_def emit_def lift_def run_event_def)

lemma log_setup_no_build: "filter build_event (fst (log_setup m v)) = []"
  by (cases v) (simp_all add: log_setup_def emit_def lift_def)

lemma read_settings_no_run: "filter run_event (fst (read_settings m config)) = []"
  unfolding read_settings_def
  by (intro then_do_no_events lift_no_events log_setup_no_run) simp

lemma read_settings_no_build: "filter build_event (fst (read_settings m config)) = []"
  unfolding read_settings_def
  by (intro then_do_no_events lift_no_events log_setup_no_build) simp

lemma symbols_or_exit_fail:
  "read_symbols config = Inl e \<Longrightarrow>
   symbols_or_exit m config
     = ([Print (CHR 0x0A # ''ERROR: Cannot find '' @ error_str e @ '' in config file!''
                @ CHR 0x0A # ''Your config is likely outdated.'')], Inl (SystemExit 1))"
  by (simp add: symbols_or_exit_def)

lemma symbols_or_exit_no_run: "filter run_event (fst (symbols_or_exit m config)) = []"
  by (simp add: symbols_or_exit_def run_event_def split: sum.splits)

lemma symbols_or_exit_no_build: "filter build_event (fst (symbols_or_exit m config)) = []"
  by (simp add: symbols_or_exit_def split: sum.splits)

lemma emit_no_run: "filter run_event evs = [] \<Longrightarrow> filter run_event (fst (emit evs)) = []"
  by (simp add: emit_def)

lemma build_all_no_run: "filter run_event (fst (build_all m config n)) = []"
  unfolding build_all_def
  by (intro then_do_no_events lift_no_events emit_no_run) (simp_all add: run_event_def)

lemma build_all_result:
  assumes "snd (build_all m config n) = Inr v"
  shows "py_get config ''pretrained_model'' (YStr []) = Inr v"
proof -
  from assms [unfolded build_all_def]
  obtain pre where
    "snd (lift (py_get config ''pretrained_model'' (YStr []))) = Inr pre"
    "snd (([], Inr pre) :: event list \<times> (py_error + yaml)) = Inr v"
    by (blast dest!: then_do_result)
  then show ?thesis by (simp add: lift_def)
qed

lemma no_pretrained_raises:
  "load_pretrained w config (YStr []) = ([], Inl (Exception ''Must have a pretrained!''))"
  by (simp add: load_pretrained_def lift_def)

lemma startup_no_pretrained:
  assumes "py_get config ''pretrained_model'' (YStr []) = Inr (YStr [])
           \<or> (\<exists>e. py_get config ''pretrained_model'' (YStr []) = Inl e)"
  shows "(\<exists>e. snd (startup w config) = Inl e)
       \<and> filter run_event (fst (startup w config)) = []
       \<and> (\<forall>s n v. snd (read_settings (master w) config) = Inr s
                \<and> snd (symbols_or_exit (master w) config) = Inr n
                \<and> snd (build_all (master w) config n) = Inr v
              \<longrightarrow> snd (startup w config) = Inl (Exception ''Must have a pretrained!''))"
proof (cases "snd (read_settings (master w) config)")
  case (Inl e)
  then show ?thesis by (simp add: startup_def then_do_Inl read_settings_no_run)
next
  case rs: (Inr s)
  show ?thesis
  proof (cases "snd (symbols_or_exit (master w) config)")
    case (Inl e)
    then show ?thesis
      by (simp add: startup_def then_do_Inr [OF rs] then_do_Inl read_settings_no_run
          symbols_or_exit_no_run)
  next
    case sy: (Inr n)
    show ?thesis
    proof (cases "snd (build_all (master w) config n)")
      case (Inl e)
      then show ?thesis
        by (simp add: startup_def then_do_Inr [OF rs] then_do_Inr [OF sy] then_do_Inl
            read_settings_no_run symbols_or_exit_no_run build_all_no_run rs sy)
    next
      case ba: (Inr v)
      from build_all_result [OF ba] assms have v: "v = YStr []" by auto
      show ?thesis
        by (simp add: startup_def then_do_Inr [OF rs] then_do_Inr [OF sy] then_do_Inr [OF ba]
            v no_pretrained_raises then_do_pair_Inl
            read_settings_no_run symbols_or_exit_no_run build_all_no_run)
    qed
  qed
qed

lemma mp_fn_startup_fails:
  "snd (startup w config) = Inl e \<Longrightarrow> mp_fn w config = (fst (startup w config), Inl e)"
  by (simp add: mp_fn_def then_do_Inl)

text \<open>
  Claim C7. If the configuration has no \<^verbatim>\<open>pretrained_model\<close> entry, or has the empty
  string there, \<^verbatim>\<open>_mp_fn\<close> ends with an exception raised during the start-up: no
  checkpoint is loaded and no event of the training loop happens. When the settings,
  the symbols and the builds of lines 55 to 174 go through, the exception is
  \<^verbatim>\<open>Exception('Must have a pretrained!')\<close>.
\<close>

theorem pretrained_required:
  assumes "map_of kvs ''pretrained_model'' = None
           \<or> map_of kvs ''pretrained_model'' = Some (YStr [])"
  shows "(\<exists>e. mp_fn w (YMap kvs) = (fst (startup w (YMap kvs)), Inl e))
       \<and> filter run_event (fst (mp_fn w (YMap kvs))) = []
       \<and> (\<forall>s n v. snd (read_settings (master w) (YMap kvs)) = Inr s
                \<and> snd (symbols_or_exit (master w) (YMap kvs)) = Inr n
                \<and> snd (build_all (master w) (YMap kvs) n) = Inr v
              \<longrightarrow> snd (mp_fn w (YMap kvs)) = Inl (Exception ''Must have a pretrained!''))"
proof -
  have g: "py_get (YMap kvs) ''pretrained_model'' (YStr []) = Inr (YStr [])
           \<or> (\<exists>e. py_get (YMap kvs) ''pretrained_model'' (YStr []) = Inl e)"
    using assms by (auto simp: py_get_def)
  note st = startup_no_pretrained [OF g, of w]
  from st obtain e where e: "snd (startup w (YMap kvs)) = Inl e" by blast
  note m = mp_fn_startup_fails [OF e]
  show ?thesis using st e by (simp add: m)
qed

lemma example_read_settings:
  "read_settings True (YMap example_entries)
     = ([MakeDirs, CopyConfig, SummaryWriter, FileHandler],
        Inr \<lparr>batch_size_v = YInt 10, epochs_v = YInt 200, save_freq_v = YInt 2,
             log_interval_v = YInt 10, max_len_v = YInt 200\<rparr>)"
  by (simp add: read_settings_def example_entries_def getitem_def py_get_def log_setup_def
      ystr_def lift_def emit_def then_do_pair then_do_pair_Inl)

lemma example_read_symbols: "read_symbols (YMap example_entries) = Inr 6"
  by (simp add: read_symbols_def symbol_entry_def bind_err_def example_entries_def getitem_def
      py_list_def ystr_def n_token_of_def)

lemma example_build_all:
  "snd (build_all True (YMap example_entries) 6) = Inr (YStr [])"
  by (simp add: build_all_def example_entries_def getitem_def py_get_def getattr_def munch_def
      bind_err_def lift_def emit_def then_do_pair then_do_pair_Inl)

text \<open>
  Witness for C7: the example configuration, which is complete but for
  \<^verbatim>\<open>pretrained_model\<close>.
\<close>

theorem pretrained_required_witness:
  "map_of example_entries ''pretrained_model'' = None
   \<and> snd (mp_fn example_world (YMap example_entries)) = Inl (Exception ''Must have a pretrained!'')
   \<and> filter run_event (fst (mp_fn example_world (YMap example_entries))) = []"
proof -
  have a: "map_of example_entries ''pretrained_model'' = None"
    by (simp add: example_entries_def)
  have m: "master example_world = True" by (simp add: example_world_def)
  have ok: "snd (read_settings (master example_world) (YMap example_entries))
              = Inr \<lparr>batch_size_v = YInt 10, epochs_v = YInt 200, save_freq_v = YInt 2,
                     log_interval_v = YInt 10, max_len_v = YInt 200\<rparr>
      \<and> snd (symbols_or_exit (master example_world) (YMap example_entries)) = Inr 6
      \<and> snd (build_all (master example_world) (YMap example_entries) 6) = Inr (YStr [])"
    by (simp add: m example_read_settings example_build_all symbols_or_exit_def
        example_read_symbols)
  show ?thesis
    using pretrained_required [of example_entries example_world] a ok by blast
qed

lemma then_do_error:
  "snd (then_do m f) = Inl e \<Longrightarrow> snd m = Inl e \<or> (\<exists>a. snd m = Inr a \<and> snd (f a) = Inl e)"
proof (cases m)
  case (Pair t r)
  then show "snd (then_do m f) = Inl e \<Longrightarrow> ?thesis"
    by (cases r) (simp_all add: then_do_pair then_do_pair_Inl)
qed

lemma getitem_exit: "getitem v k = Inl e \<Longrightarrow> exit_status (Inl e :: py_error + unit) = 1"
  by (auto simp: getitem_def split: yaml.splits option.splits)

lemma py_get_exit: "py_get v k d = Inl e \<Longrightarrow> exit_status (Inl e :: py_error + unit) = 1"
  by (auto simp: py_get_def split: yaml.splits option.splits)

lemma log_setup_exit:
  "snd (log_setup m v) = Inl e \<Longrightarrow> exit_status (Inl e :: py_error + unit) = 1"
  by (auto simp: log_setup_def lift_def emit_def split: yaml.splits if_splits)

lemma lift_error: "snd (lift r) = Inl e \<Longrightarrow> r = Inl e"
  by (simp add: lift_def)

lemma read_settings_exit:
  assumes "snd (read_settings m config) = Inl e"
  shows "exit_status (Inl e :: py_error + unit) = 1"
  using assms unfolding read_settings_def
  by (auto dest!: then_do_error lift_error dest: getitem_exit py_get_exit log_setup_exit)

lemma read_symbols_no_block:
  "getitem config ''symbol'' = Inl e \<Longrightarrow> read_symbols config = Inl e"
  by (simp add: read_symbols_def symbol_entry_def bind_err_def)

lemma symbol_entry_block:
  assumes "getitem config ''symbol'' = Inr (YMap blk)"
  shows "symbol_entry config k
       = (case map_of blk k of None \<Rightarrow> Inl (KeyError k) | Some v \<Rightarrow> py_list v)"
proof -
  have g: "getitem (YMap blk) k
      = (case map_of blk k of None \<Rightarrow> Inl (KeyError k) | Some x \<Rightarrow> Inr x)"
    by (simp add: getitem_def)
  show ?thesis by (simp add: symbol_entry_def bind_err_def assms g split: option.splits)
qed

lemma read_symbols_missing_key:
  assumes blk: "getitem config ''symbol'' = Inr (YMap blk)"
    and k: "k \<in> set symbol_keys" "map_of blk k = None"
  shows "\<exists>e. read_symbols config = Inl e"
  using k
  by (auto simp: read_symbols_def symbol_entry_block [OF blk] bind_err_def symbol_keys_def
      split: sum.splits)

lemma read_symbols_names_first_missing:
  assumes blk: "getitem config ''symbol'' = Inr (YMap blk)"
    and it: "\<forall>k \<in> set symbol_keys. \<forall>v. map_of blk k = Some v \<longrightarrow> (\<exists>xs. py_list v = Inr xs)"
    and k: "k \<in> set symbol_keys" "map_of blk k = None"
  shows "read_symbols config = Inl (KeyError (hd (filter (\<lambda>k. map_of blk k = None) symbol_keys)))"
proof -
  have e: "symbol_entry config k' = Inl (KeyError k')" if "map_of blk k' = None" for k'
    using that by (simp add: symbol_entry_block [OF blk])
  have s: "\<exists>xs. symbol_entry config k' = Inr xs"
    if "k' \<in> set symbol_keys" "map_of blk k' \<noteq> None" for k'
    using that it by (auto simp: symbol_entry_block [OF blk])
  show ?thesis
  proof (cases "map_of blk ''pad'' = None")
    case True
    then show ?thesis by (simp add: read_symbols_def e bind_err_def symbol_keys_def)
  next
    case p: False
    from s [OF _ p] obtain x1 where x1: "symbol_entry config ''pad'' = Inr x1"
      by (auto simp: symbol_keys_def)
    show ?thesis
    proof (cases "map_of blk ''punctuation'' = None")
      case True
      then show ?thesis using p by (simp add: read_symbols_def e x1 bind_err_def symbol_keys_def)
    next
      case q: False
      from s [OF _ q] obtain x2 where x2: "symbol_entry config ''punctuation'' = Inr x2"
        by (auto simp: symbol_keys_def)
      show ?thesis
      proof (cases "map_of blk ''letters'' = None")
        case True
        then show ?thesis using p q
          by (simp add: read_symbols_def e x1 x2 bind_err_def symbol_keys_def)
      next
        case r: False
        from s [OF _ r] obtain x3 where x3: "symbol_entry config ''letters'' = Inr x3"
          by (auto simp: symbol_keys_def)
        show ?thesis
        proof (cases "map_of blk ''letters_ipa'' = None")
          case True
          then show ?thesis using p q r
            by (simp add: read_symbols_def e x1 x2 x3 bind_err_def symbol_keys_def)
        next
          case u: False
          from s [OF _ u] obtain x4 where x4: "symbol_entry config ''letters_ipa'' = Inr x4"
            by (auto simp: symbol_keys_def)
          have "map_of blk ''extend'' = None" using k p q r u by (auto simp: symbol_keys_def)
          then show ?thesis using p q r u
            by (simp add: read_symbols_def e x1 x2 x3 x4 bind_err_def symbol_keys_def)
        qed
      qed
    qed
  qed
qed

lemma first_missing_key:
  assumes "k \<in> set symbol_keys" "map_of blk k = None"
  shows "hd (filter (\<lambda>k. map_of blk k = None) symbol_keys) \<in> set symbol_keys
       \<and> map_of blk (hd (filter (\<lambda>k. map_of blk k = None) symbol_keys)) = None"
proof -
  let ?ms = "filter (\<lambda>k. map_of blk k = None) symbol_keys"
  have "?ms \<noteq> []" using assms by (auto simp: filter_empty_conv)
  then have "hd ?ms \<in> set ?ms" by (rule hd_in_set)
  then show ?thesis by simp
qed

lemma startup_symbols_fail:
  assumes rs: "read_symbols config = Inl e"
  shows "(\<exists>e'. snd (startup w config) = Inl e' \<and> exit_status (Inl e' :: py_error + unit) = 1)
       \<and> filter build_event (fst (startup w config)) = []
       \<and> filter run_event (fst (startup w config)) = []
       \<and> (\<forall>s. snd (read_settings (master w) config) = Inr s \<longrightarrow>
             startup w config
               = (fst (read_settings (master w) config)
                    @ [Print (CHR 0x0A # ''ERROR: Cannot find '' @ error_str e @ '' in config file!''
                              @ CHR 0x0A # ''Your config is likely outdated.'')],
                  Inl (SystemExit 1)))"
proof (cases "snd (read_settings (master w) config)")
  case (Inl e0)
  then show ?thesis
    by (simp add: startup_def then_do_Inl read_settings_no_run read_settings_no_build
        read_settings_exit [OF Inl])
next
  case (Inr s)
  show ?thesis
    by (simp add: startup_def then_do_Inr [OF Inr] symbols_or_exit_fail [OF rs] then_do_pair_Inl
        Inr read_settings_no_run read_settings_no_build run_event_def)
qed

text \<open>
  Claim C8, as amended. If the configuration has no \<^verbatim>\<open>symbol\<close> entry, or its
  \<^verbatim>\<open>symbol\<close> block is a mapping that lacks one of the keys \<^verbatim>\<open>pad\<close>, \<^verbatim>\<open>punctuation\<close>,
  \<^verbatim>\<open>letters\<close>, \<^verbatim>\<open>letters_ipa\<close>, \<^verbatim>\<open>extend\<close>, the worker ends with exit status 1
  before any dataloader or the model is built, and before any event of the loop. If
  moreover lines 55 to 79 go through, then: for a missing block the worker prints the
  message of line 94 with \<^verbatim>\<open>'symbol'\<close> in it and raises \<^verbatim>\<open>SystemExit(1)\<close>; for a block
  whose present entries are iterable it prints the message of line 94 with, between
  single quotes, the first missing key in the order of the source, and raises
  \<^verbatim>\<open>SystemExit(1)\<close>. Nothing else is printed after the events of lines 55 to 79.
\<close>

theorem missing_symbols_exit:
  assumes missing: "getitem config ''symbol'' = Inl (KeyError ''symbol'')
      \<or> (\<exists>blk k. getitem config ''symbol'' = Inr (YMap blk)
                 \<and> k \<in> set symbol_keys \<and> map_of blk k = None)"
  shows "(\<exists>e. snd (mp_fn w config) = Inl e)
       \<and> exit_status (snd (mp_fn w config)) = 1
       \<and> filter build_event (fst (mp_fn w config)) = []
       \<and> filter run_event (fst (mp_fn w config)) = []
       \<and> (\<forall>s. snd (read_settings (master w) config) = Inr s
              \<and> getitem config ''symbol'' = Inl (KeyError ''symbol'') \<longrightarrow>
             mp_fn w config
               = (fst (read_settings (master w) config)
                    @ [Print (CHR 0x0A # ''ERROR: Cannot find '' @ CHR 0x27 # ''symbol''
                              @ CHR 0x27 # '' in config file!''
                              @ CHR 0x0A # ''Your config is likely outdated.'')],
                  Inl (SystemExit 1)))
       \<and> (\<forall>s blk. snd (read_settings (master w) config) = Inr s
              \<and> getitem config ''symbol'' = Inr (YMap blk)
              \<and> (\<forall>k \<in> set symbol_keys. \<forall>v. map_of blk k = Some v \<longrightarrow> (\<exists>xs. py_list v = Inr xs))
             \<longrightarrow> (\<exists>k \<in> set symbol_keys.
                    map_of blk k = None
                  \<and> k = hd (filter (\<lambda>k. map_of blk k = None) symbol_keys)
                  \<and> mp_fn w config
                      = (fst (read_settings (master w) config)
                           @ [Print (CHR 0x0A # ''ERROR: Cannot find '' @ CHR 0x27 # k
                                     @ CHR 0x27 # '' in config file!''
                                     @ CHR 0x0A # ''Your config is likely outdated.'')],
                         Inl (SystemExit 1))))"
proof -
  from missing obtain e where rs: "read_symbols config = Inl e"
    using read_symbols_no_block read_symbols_missing_key by blast
  note st = startup_symbols_fail [OF rs, of w]
  from st obtain e' where e': "snd (startup w config) = Inl e'"
    "exit_status (Inl e' :: py_error + unit) = 1" by blast
  note m = mp_fn_startup_fails [OF e'(1)]
  have part1: "(\<exists>e. snd (mp_fn w config) = Inl e)
       \<and> exit_status (snd (mp_fn w config)) = 1
       \<and> filter build_event (fst (mp_fn w config)) = []
       \<and> filter run_event (fst (mp_fn w config)) = []"
    using st e' by (simp add: m)
  have msg: "mp_fn w config
               = (fst (read_settings (master w) config)
                    @ [Print (CHR 0x0A # ''ERROR: Cannot find '' @ CHR 0x27 # k
                              @ CHR 0x27 # '' in config file!''
                              @ CHR 0x0A # ''Your config is likely outdated.'')],
                  Inl (SystemExit 1))"
    if s: "snd (read_settings (master w) config) = Inr s"
      and k: "read_symbols config = Inl (KeyError k)" for s k
  proof -
    from startup_symbols_fail [OF k, of w] s have "startup w config
               = (fst (read_settings (master w) config)
                    @ [Print (CHR 0x0A # ''ERROR: Cannot find '' @ error_str (KeyError k)
                              @ '' in config file!''
                              @ CHR 0x0A # ''Your config is likely outdated.'')],
                  Inl (SystemExit 1))" by blast
    then show ?thesis by (simp add: mp_fn_def then_do_pair_Inl py_repr_def)
  qed
  have part2: "mp_fn w config
               = (fst (read_settings (master w) config)
                    @ [Print (CHR 0x0A # ''ERROR: Cannot find '' @ CHR 0x27 # ''symbol''
                              @ CHR 0x27 # '' in config file!''
                              @ CHR 0x0A # ''Your config is likely outdated.'')],
                  Inl (SystemExit 1))"
    if "snd (read_settings (master w) config) = Inr s"
      and "getitem config ''symbol'' = Inl (KeyError ''symbol'')" for s
    using msg [OF that(1) read_symbols_no_block [OF that(2)]] .
  have part3: "\<exists>k \<in> set symbol_keys.
                    map_of blk k = None
                  \<and> k = hd (filter (\<lambda>k. map_of blk k = None) symbol_keys)
                  \<and> mp_fn w config
                      = (fst (read_settings (master w) config)
                           @ [Print (CHR 0x0A # ''ERROR: Cannot find '' @ CHR 0x27 # k
                                     @ CHR 0x27 # '' in config file!''
                                     @ CHR 0x0A # ''Your config is likely outdated.'')],
                         Inl (SystemExit 1))"
    if s: "snd (read_settings (master w) config) = Inr s"
      and b: "getitem config ''symbol'' = Inr (YMap blk)"
      and it: "\<forall>k \<in> set symbol_keys. \<forall>v. map_of blk k = Some v \<longrightarrow> (\<exists>xs. py_list v = Inr xs)"
    for s blk
  proof -
    from missing b obtain k where k: "k \<in> set symbol_keys" "map_of blk k = None" by auto
    let ?k = "hd (filter (\<lambda>k. map_of blk k = None) symbol_keys)"
    note f = first_missing_key [OF k]
    note r = read_symbols_names_first_missing [OF b it k]
    from msg [OF s r] f show ?thesis by blast
  qed
  show ?thesis using part1 part2 part3 by blast
qed

text \<open>
  Witness for C8: the example configuration cut down to \<^verbatim>\<open>log_dir\<close> and
  \<^verbatim>\<open>data_params\<close>, where the message names \<^verbatim>\<open>'symbol'\<close>; and the same with a
  \<^verbatim>\<open>symbol\<close> block that holds \<^verbatim>\<open>pad\<close> and \<^verbatim>\<open>letters\<close> only, where the message names
  \<^verbatim>\<open>'punctuation'\<close>.
\<close>

theorem missing_symbols_exit_witness:
  "getitem (YMap (take 2 example_entries)) ''symbol'' = Inl (KeyError ''symbol'')
   \<and> mp_fn example_world (YMap (take 2 example_entries))
       = ([MakeDirs, CopyConfig, SummaryWriter, FileHandler,
           Print (CHR 0x0A # ''ERROR: Cannot find '' @ CHR 0x27 # ''symbol''
                  @ CHR 0x27 # '' in config file!''
                  @ CHR 0x0A # ''Your config is likely outdated.'')],
          Inl (SystemExit 1))
   \<and> exit_status (snd (mp_fn example_world (YMap (take 2 example_entries)))) = 1
   \<and> getitem (YMap (take 2 example_entries
                      @ [(''symbol'', YMap [(''pad'', ystr ''$''), (''letters'', ystr ''ab'')])]))
        ''symbol''
       = Inr (YMap [(''pad'', ystr ''$''), (''letters'', ystr ''ab'')])
   \<and> mp_fn example_world
        (YMap (take 2 example_entries
               @ [(''symbol'', YMap [(''pad'', ystr ''$''), (''letters'', ystr ''ab'')])]))
       = ([MakeDirs, CopyConfig, SummaryWriter, FileHandler,
           Print (CHR 0x0A # ''ERROR: Cannot find '' @ CHR 0x27 # ''punctuation''
                  @ CHR 0x27 # '' in config file!''
                  @ CHR 0x0A # ''Your config is likely outdated.'')],
          Inl (SystemExit 1))"
proof -
  let ?A = "YMap (take 2 example_entries)"
  let ?blk = "[(''pad'', ystr ''$''), (''letters'', ystr ''ab'')]"
  let ?B = "YMap (take 2 example_entries @ [(''symbol'', YMap ?blk)])"
  have a: "getitem ?A ''symbol'' = Inl (KeyError ''symbol'')"
    by (simp add: example_entries_def getitem_def)
  have b: "getitem ?B ''symbol'' = Inr (YMap ?blk)"
    by (simp add: example_entries_def getitem_def)
  have m: "master example_world = True" by (simp add: example_world_def)
  have rsA: "read_settings True ?A
     = ([MakeDirs, CopyConfig, SummaryWriter, FileHandler],
        Inr \<lparr>batch_size_v = YInt 10, epochs_v = YInt 200, save_freq_v = YInt 2,
             log_interval_v = YInt 10, max_len_v = YInt 200\<rparr>)"
    by (simp add: read_settings_def example_entries_def getitem_def py_get_def log_setup_def
        ystr_def lift_def emit_def then_do_pair then_do_pair_Inl)
  have rsB: "read_settings True ?B
     = ([MakeDirs, CopyConfig, SummaryWriter, FileHandler],
        Inr \<lparr>batch_size_v = YInt 10, epochs_v = YInt 200, save_freq_v = YInt 2,
             log_interval_v = YInt 10, max_len_v = YInt 200\<rparr>)"
    by (simp add: read_settings_def example_entries_def getitem_def py_get_def log_setup_def
        ystr_def lift_def emit_def then_do_pair then_do_pair_Inl)
  have it: "\<forall>k \<in> set symbol_keys. \<forall>v. map_of ?blk k = Some v \<longrightarrow> (\<exists>xs. py_list v = Inr xs)"
    by (simp add: symbol_keys_def py_list_def ystr_def)
  have k: "''punctuation'' \<in> set symbol_keys \<and> map_of ?blk ''punctuation'' = None"
    by (simp add: symbol_keys_def)
  have h: "hd (filter (\<lambda>k. map_of ?blk k = None) symbol_keys) = ''punctuation''"
    by (simp add: symbol_keys_def)
  have missB: "getitem ?B ''symbol'' = Inl (KeyError ''symbol'')
      \<or> (\<exists>blk k. getitem ?B ''symbol'' = Inr (YMap blk)
                 \<and> k \<in> set symbol_keys \<and> map_of blk k = None)"
    using b k by blast
  have A: "mp_fn example_world ?A
       = ([MakeDirs, CopyConfig, SummaryWriter, FileHandler,
           Print (CHR 0x0A # ''ERROR: Cannot find '' @ CHR 0x27 # ''symbol''
                  @ CHR 0x27 # '' in config file!''
                  @ CHR 0x0A # ''Your config is likely outdated.'')],
          Inl (SystemExit 1))
       \<and> exit_status (snd (mp_fn example_world ?A)) = 1"
    using missing_symbols_exit [of ?A example_world] a by (auto simp: m rsA)
  have B: "mp_fn example_world ?B
       = ([MakeDirs, CopyConfig, SummaryWriter, FileHandler,
           Print (CHR 0x0A # ''ERROR: Cannot find '' @ CHR 0x27 # ''punctuation''
                  @ CHR 0x27 # '' in config file!''
                  @ CHR 0x0A # ''Your config is likely outdated.'')],
          Inl (SystemExit 1))"
  proof -
    from missing_symbols_exit [OF missB, of example_world]
    have "\<forall>s blk. snd (read_settings (master example_world) ?B) = Inr s
              \<and> getitem ?B ''symbol'' = Inr (YMap blk)
              \<and> (\<forall>k \<in> set symbol_keys. \<forall>v. map_of blk k = Some v \<longrightarrow> (\<exists>xs. py_list v = Inr xs))
             \<longrightarrow> (\<exists>k \<in> set symbol_keys.
                    map_of blk k = None
                  \<and> k = hd (filter (\<lambda>k. map_of blk k = None) symbol_keys)
                  \<and> mp_fn example_world ?B
                      = (fst (read_settings (master example_world) ?B)
                           @ [Print (CHR 0x0A # ''ERROR: Cannot find '' @ CHR 0x27 # k
                                     @ CHR 0x27 # '' in config file!''
                                     @ CHR 0x0A # ''Your config is likely outdated.'')],
                         Inl (SystemExit 1)))"
      by blast
    from this [rule_format, of _ ?blk] b it
    have "\<exists>k \<in> set symbol_keys.
                    map_of ?blk k = None
                  \<and> k = hd (filter (\<lambda>k. map_of ?blk k = None) symbol_keys)
                  \<and> mp_fn example_world ?B
                      = (fst (read_settings (master example_world) ?B)
                           @ [Print (CHR 0x0A # ''ERROR: Cannot find '' @ CHR 0x27 # k
                                     @ CHR 0x27 # '' in config file!''
                                     @ CHR 0x0A # ''Your config is likely outdated.'')],
                         Inl (SystemExit 1))"
      by (simp add: m rsB)
    then show ?thesis unfolding h by (auto simp: m rsB)
  qed
  show ?thesis using a b A B by blast
qed

text \<open>
  Counterexample for C8 as stated: two configurations with a missing field and no
  message that names it. The empty configuration has no \<^verbatim>\<open>symbol\<close> block; line 55
  raises \<^verbatim>\<open>KeyError('log_dir')\<close> before line 81 and nothing is printed by the program.
  A configuration whose \<^verbatim>\<open>symbol\<close> block is \<^verbatim>\<open>{pad: 5}\<close> lacks \<^verbatim>\<open>punctuation\<close> (and
  three more keys); \<^verbatim>\<open>list(5)\<close> raises first and the message printed is
  \<^verbatim>\<open>ERROR: Cannot find 'int' object is not iterable in config file!\<close>.
\<close>

theorem missing_symbols_unnamed:
  "getitem (YMap []) ''symbol'' = Inl (KeyError ''symbol'')
   \<and> mp_fn example_world (YMap []) = ([], Inl (KeyError ''log_dir''))
   \<and> getitem (YMap (take 2 example_entries @ [(''symbol'', YMap [(''pad'', YInt 5)])])) ''symbol''
       = Inr (YMap [(''pad'', YInt 5)])
   \<and> map_of [(''pad'', YInt 5)] ''punctuation'' = None
   \<and> ''punctuation'' \<in> set symbol_keys
   \<and> mp_fn example_world (YMap (take 2 example_entries @ [(''symbol'', YMap [(''pad'', YInt 5)])]))
       = ([MakeDirs, CopyConfig, SummaryWriter, FileHandler,
           Print (CHR 0x0A # ''ERROR: Cannot find '' @ CHR 0x27 # ''int'' @ CHR 0x27
                  # '' object is not iterable in config file!''
                  @ CHR 0x0A # ''Your config is likely outdated.'')],
          Inl (SystemExit 1))"
proof -
  let ?C = "YMap (take 2 example_entries @ [(''symbol'', YMap [(''pad'', YInt 5)])])"
  have a: "getitem (YMap []) ''symbol'' = Inl (KeyError ''symbol'')"
    by (simp add: getitem_def)
  have s0: "startup example_world (YMap []) = ([], Inl (KeyError ''log_dir''))"
    by (simp add: startup_def read_settings_def getitem_def lift_def then_do_pair_Inl)
  have b: "mp_fn example_world (YMap []) = ([], Inl (KeyError ''log_dir''))"
    by (simp add: mp_fn_def s0 then_do_pair_Inl)
  have c: "getitem ?C ''symbol'' = Inr (YMap [(''pad'', YInt 5)])"
    by (simp add: example_entries_def getitem_def)
  have d: "map_of [(''pad'', YInt 5)] ''punctuation'' = None \<and> ''punctuation'' \<in> set symbol_keys"
    by (simp add: symbol_keys_def)
  have m: "master example_world = True" by (simp add: example_world_def)
  have rs: "read_settings True ?C
     = ([MakeDirs, CopyConfig, SummaryWriter, FileHandler],
        Inr \<lparr>batch_size_v = YInt 10, epochs_v = YInt 200, save_freq_v = YInt 2,
             log_interval_v = YInt 10, max_len_v = YInt 200\<rparr>)"
    by (simp add: read_settings_def example_entries_def getitem_def py_get_def log_setup_def
        ystr_def lift_def emit_def then_do_pair then_do_pair_Inl)
  have sy: "read_symbols ?C = Inl (TypeError (CHR 0x27 # ''int'' @ CHR 0x27 # '' object is not iterable''))"
    by (simp add: read_symbols_def symbol_entry_block [OF c] bind_err_def py_list_def)
  have e: "mp_fn example_world ?C
       = ([MakeDirs, CopyConfig, SummaryWriter, FileHandler,
           Print (CHR 0x0A # ''ERROR: Cannot find '' @ CHR 0x27 # ''int'' @ CHR 0x27
                  # '' object is not iterable in config file!''
                  @ CHR 0x0A # ''Your config is likely outdated.'')],
          Inl (SystemExit 1))"
    by (simp add: mp_fn_def startup_def m rs then_do_pair then_do_pair_Inl
        symbols_or_exit_fail [OF sy])
  show ?thesis using a b c d e by blast
qed

end
